theory Spec2Isabelle
  imports Complex_Main
begin

section \<open>Python values, errors and tables\<close>

text \<open>
  Python floats are idealised as real numbers and Python integers are \<open>int\<close>.
  An exception is the left summand of a result; the classes of the exceptions the
  source raises are kept apart.
\<close>

text \<open>What a \<open>NominalDataError\<close> of the validator reports (its message, with the numbers it quotes).\<close>

datatype nominal_msg =
    Missing_key string
  | S_below_1
  | Pt_below_1
  | Pa_below_0
  | Pa_above_Pt
  | Right_side_below_1 int
  | Pt_not_equal_Pa
  | P_below_1
  | Pa_not_multiple_of_P int int

datatype py_error =
  ValueError | ZeroDivisionError | TypeError | KeyError | NominalDataError nominal_msg

definition ebind :: "py_error + 'a \<Rightarrow> ('a \<Rightarrow> py_error + 'b) \<Rightarrow> py_error + 'b" where
  "ebind m k = (case m of Inl e \<Rightarrow> Inl e | Inr v \<Rightarrow> k v)"

text \<open>A \<open>for\<close> loop that appends one result per element and stops at the first exception.\<close>

fun for_each :: "('a \<Rightarrow> py_error + 'b) \<Rightarrow> 'a list \<Rightarrow> py_error + 'b list" where
  "for_each body [] = Inr []"
| "for_each body (x # xs) =
     ebind (body x) (\<lambda>r. ebind (for_each body xs) (\<lambda>rs. Inr (r # rs)))"

text \<open>
  A cell of a table: a Python int, a float, a string, or the missing value.
  A row is the dict the loop body appends (keys in insertion order); a DataFrame is the
  ordered list of its columns, every column holding one cell per row.
\<close>

datatype cell = IntC int | Flt real | Txt string | NaN

type_synonym row = "(string \<times> cell) list"
type_synonym frame = "(string \<times> cell list) list"

definition cell_of :: "row \<Rightarrow> string \<Rightarrow> cell" where
  "cell_of r k = (case map_of r k of None \<Rightarrow> NaN | Some c \<Rightarrow> c)"

text \<open>\<open>pd.DataFrame(rows)\<close> for rows that all carry the keys of the first one.\<close>

definition DataFrame :: "row list \<Rightarrow> frame" where
  "DataFrame rows =
     (case rows of
        [] \<Rightarrow> []
      | r # _ \<Rightarrow> map (\<lambda>k. (k, map (\<lambda>r'. cell_of r' k) rows)) (map fst r))"

definition nrows :: "frame \<Rightarrow> nat" where
  "nrows fr = (case fr of [] \<Rightarrow> 0 | c # _ \<Rightarrow> length (snd c))"

text \<open>\<open>round(x, nd)\<close> on a float: to the nearest multiple of \<open>10^-nd\<close>, ties to even.\<close>

definition round_half_even :: "real \<Rightarrow> int" where
  "round_half_even x =
     (let fl = \<lfloor>x\<rfloor>; d = x - of_int fl
      in if d < 1 / 2 then fl
         else if 1 / 2 < d then fl + 1
         else if even fl then fl else fl + 1)"

definition py_round :: "real \<Rightarrow> nat \<Rightarrow> real" where
  "py_round x nd = real_of_int (round_half_even (x * 10 ^ nd)) / 10 ^ nd"

text \<open>\<open>int(x)\<close> on a number truncates towards zero.\<close>

definition py_int :: "real \<Rightarrow> int" where
  "py_int x = (if 0 \<le> x then \<lfloor>x\<rfloor> else \<lceil>x\<rceil>)"

text \<open>
  The \<open>_safe_div\<close> of the wye classes refuses a denominator below \<open>1e-12\<close> in absolute
  value; its third argument only names the quantity in the message.
\<close>

definition safe_div :: "real \<Rightarrow> real \<Rightarrow> py_error + real" where
  "safe_div num den =
     (if \<bar>den\<bar> < 1 / 10 ^ 12 then Inl ZeroDivisionError else Inr (num / den))"

text \<open>
  Python's \<open>/\<close>, and the \<open>_safe_div\<close> of \<open>Table06HBridgeMinimal\<close> (\<open>den == 0\<close>):
  only a denominator equal to zero raises.
\<close>

definition truediv :: "real \<Rightarrow> real \<Rightarrow> py_error + real" where
  "truediv num den = (if den = 0 then Inl ZeroDivisionError else Inr (num / den))"

section \<open>The model objects\<close>

text \<open>
  \<open>self\<close> of the five model classes: the structural parameters the constructor stores
  and the table \<open>df\<close> that \<open>calcular\<close> stores. A class whose constructor has no
  \<open>St\<close>, \<open>P\<close>, \<open>N\<close>, \<open>Su\<close> or \<open>Cu_fixed\<close> never reads that field. An object exists
  only when the \<open>_validate\<close> of its class, called by the constructor, did not raise.
\<close>

record bank =
  S :: int
  St :: int
  Pt :: int
  Pa :: int
  P :: int
  N :: int
  Su :: int
  Cu_fixed :: real
  df :: frame

definition G_ok :: "int \<Rightarrow> bool" where
  "G_ok G = (G = 0 \<or> G = 1)"

text \<open>
  \<open>calcular\<close> assigns \<open>self.df\<close> in its last statement, so a call that raised leaves
  the object as it was.
\<close>

definition store :: "bank \<Rightarrow> py_error + row list \<Rightarrow> (py_error + frame) \<times> bank" where
  "store self res =
     (case res of
        Inl e \<Rightarrow> (Inl e, self)
      | Inr rows \<Rightarrow> (Inr (DataFrame rows), self\<lparr>df := DataFrame rows\<rparr>))"

section \<open>Single wye, internal fuses: \<open>Table07SingleWyeInternalFuses\<close>\<close>

definition T07Y_validate :: "bank \<Rightarrow> py_error + unit" where
  "T07Y_validate self =
     (if list_ex (\<lambda>v. v \<le> 0) [S self, Pt self, Pa self, P self, N self, Su self]
      then Inl ValueError
      else if Pa self \<noteq> Pt self then Inl ValueError
      else Inr ())"

definition T07Y_Ci :: "bank \<Rightarrow> int \<Rightarrow> py_error + real" where
  "T07Y_Ci self f = safe_div (real_of_int (N self - f)) (real_of_int (N self))"

definition T07Y_Vg :: "bank \<Rightarrow> int \<Rightarrow> py_error + real" where
  "T07Y_Vg self f =
     (let num = Su self * N self;
          den = (Su self - 1) * (N self - f) + N self
      in safe_div (real_of_int num) (real_of_int den))"

definition T07Y_Cu :: "bank \<Rightarrow> real \<Rightarrow> py_error + real" where
  "T07Y_Cu self Ci =
     (let num = real_of_int (Su self) * Ci;
          den = Ci * real_of_int (Su self - 1) + 1
      in safe_div num den)"

definition T07Y_Cg :: "bank \<Rightarrow> real \<Rightarrow> py_error + real" where
  "T07Y_Cg self Cu = safe_div (real_of_int (P self - 1) + Cu) (real_of_int (P self))"

definition T07Y_Cs :: "bank \<Rightarrow> real \<Rightarrow> py_error + real" where
  "T07Y_Cs self Cg =
     (let num = real_of_int (S self) * Cg;
          den = Cg * real_of_int (S self - 1) + 1
      in safe_div num den)"

definition T07Y_Cp :: "bank \<Rightarrow> real \<Rightarrow> py_error + real" where
  "T07Y_Cp self Cs =
     (let num = Cs * real_of_int (P self) + real_of_int (Pt self - P self);
          den = real_of_int (Pt self)
      in safe_div num den)"

definition T07Y_Vng :: "bank \<Rightarrow> real \<Rightarrow> int \<Rightarrow> py_error + real" where
  "T07Y_Vng self Cp G =
     ebind (safe_div 3 (2 + Cp)) (\<lambda>inner. Inr (real_of_int G * (inner - 1)))"

definition T07Y_Vln :: "real \<Rightarrow> real" where
  "T07Y_Vln Vng = 1 + Vng"

definition T07Y_Vcu :: "bank \<Rightarrow> real \<Rightarrow> real \<Rightarrow> real \<Rightarrow> py_error + real" where
  "T07Y_Vcu self Vln Cs Cg = safe_div (Vln * Cs) Cg"

definition T07Y_Ve :: "real \<Rightarrow> real \<Rightarrow> real" where
  "T07Y_Ve Vcu Vg = Vcu * Vg"

definition T07Y_Iu :: "real \<Rightarrow> real \<Rightarrow> real" where
  "T07Y_Iu Vcu Cu = Vcu * Cu"

definition T07Y_Ist :: "real \<Rightarrow> real \<Rightarrow> real" where
  "T07Y_Ist Cs Vln = Cs * Vln"

definition T07Y_Iph :: "real \<Rightarrow> real \<Rightarrow> real" where
  "T07Y_Iph Cp Vln = Cp * Vln"

definition T07Y_Ig :: "real \<Rightarrow> int \<Rightarrow> real" where
  "T07Y_Ig Iph G = real_of_int (1 - G) * (1 - Iph)"

definition T07Y_In :: "real" where
  "T07Y_In = 0"

text \<open>The body of the loop of \<open>calcular\<close>: the dict appended for one \<open>f\<close>.\<close>

definition T07Y_row :: "bank \<Rightarrow> int \<Rightarrow> int \<Rightarrow> py_error + row" where
  "T07Y_row self G f =
     ebind (T07Y_Ci self f) (\<lambda>Ci.
     ebind (T07Y_Vg self f) (\<lambda>Vg.
     ebind (T07Y_Cu self Ci) (\<lambda>Cu.
     ebind (T07Y_Cg self Cu) (\<lambda>Cg.
     ebind (T07Y_Cs self Cg) (\<lambda>Cs.
     ebind (T07Y_Cp self Cs) (\<lambda>Cp.
     ebind (T07Y_Vng self Cp G) (\<lambda>Vng.
     let Vln = T07Y_Vln Vng in
     ebind (T07Y_Vcu self Vln Cs Cg) (\<lambda>Vcu.
     let Ve = T07Y_Ve Vcu Vg;
         Iu = T07Y_Iu Vcu Cu;
         Ist = T07Y_Ist Cs Vln;
         Iph = T07Y_Iph Cp Vln;
         Ig = T07Y_Ig Iph G;
         In = T07Y_In
     in Inr [(''G'', IntC G), (''f'', IntC f),
             (''Ci'', Flt (py_round Ci 6)),
             (''Vg'', Flt (py_round Vg 6)),
             (''Cu'', Flt (py_round Cu 6)),
             (''Cg'', Flt (py_round Cg 6)),
             (''Cs'', Flt (py_round Cs 6)),
             (''Cp'', Flt (py_round Cp 6)),
             (''Vng'', Flt (py_round Vng 6)),
             (''Vln'', Flt (py_round Vln 6)),
             (''Vcu'', Flt (py_round Vcu 6)),
             (''Ve'', Flt (py_round Ve 6)),
             (''Iu'', Flt (py_round Iu 6)),
             (''Ist'', Flt (py_round Ist 6)),
             (''Iph'', Flt (py_round Iph 6)),
             (''Ig'', Flt (py_round Ig 6)),
             (''In'', Flt (py_round In 6))]))))))))"

text \<open>The list \<open>resultados\<close> at the end of the loop; \<open>None\<close> is the absent \<open>f_values\<close>.\<close>

definition T07Y_resultados :: "bank \<Rightarrow> int \<Rightarrow> int list option \<Rightarrow> py_error + row list" where
  "T07Y_resultados self G f_values =
     (if \<not> G_ok G then Inl ValueError
      else for_each (T07Y_row self G)
             (case f_values of None \<Rightarrow> [0 .. N self - 1] | Some fs \<Rightarrow> fs))"

definition T07Y_calcular :: "bank \<Rightarrow> int \<Rightarrow> int list option \<Rightarrow> (py_error + frame) \<times> bank" where
  "T07Y_calcular self G f_values = store self (T07Y_resultados self G f_values)"

section \<open>Double wye, internal fuses: \<open>Table07DoubleWyeFig34\<close>\<close>

definition T07YY_validate :: "bank \<Rightarrow> py_error + unit" where
  "T07YY_validate self =
     (if list_ex (\<lambda>v. v \<le> 0) [S self, Pt self, Pa self, P self, N self, Su self]
      then Inl ValueError
      else Inr ())"

definition T07YY_Ci :: "bank \<Rightarrow> int \<Rightarrow> py_error + real" where
  "T07YY_Ci self f = safe_div (real_of_int (N self - f)) (real_of_int (N self))"

definition T07YY_Vg :: "bank \<Rightarrow> int \<Rightarrow> py_error + real" where
  "T07YY_Vg self f =
     (let num = Su self * N self;
          den = (Su self - 1) * (N self - f) + N self
      in safe_div (real_of_int num) (real_of_int den))"

definition T07YY_Cu :: "bank \<Rightarrow> real \<Rightarrow> py_error + real" where
  "T07YY_Cu self Ci =
     (let num = real_of_int (Su self) * Ci;
          den = Ci * real_of_int (Su self - 1) + 1
      in safe_div num den)"

definition T07YY_Cg :: "bank \<Rightarrow> real \<Rightarrow> py_error + real" where
  "T07YY_Cg self Cu = safe_div (real_of_int (P self - 1) + Cu) (real_of_int (P self))"

definition T07YY_Cs :: "bank \<Rightarrow> real \<Rightarrow> py_error + real" where
  "T07YY_Cs self Cg =
     (let num = real_of_int (S self) * Cg;
          den = Cg * real_of_int (S self - 1) + 1
      in safe_div num den)"

definition T07YY_Cp :: "bank \<Rightarrow> real \<Rightarrow> py_error + real" where
  "T07YY_Cp self Cs =
     (let num = Cs * real_of_int (P self) + real_of_int (Pt self - P self);
          den = real_of_int (Pt self)
      in safe_div num den)"

definition T07YY_Vng :: "bank \<Rightarrow> real \<Rightarrow> int \<Rightarrow> py_error + real" where
  "T07YY_Vng self Cp G =
     ebind (safe_div 3 (2 + Cp)) (\<lambda>inner. Inr (real_of_int G * (inner - 1)))"

definition T07YY_Vln :: "real \<Rightarrow> real" where
  "T07YY_Vln Vng = 1 + Vng"

definition T07YY_Vcu :: "bank \<Rightarrow> real \<Rightarrow> real \<Rightarrow> real \<Rightarrow> py_error + real" where
  "T07YY_Vcu self Vln Cs Cg = safe_div (Vln * Cs) Cg"

definition T07YY_Ve :: "real \<Rightarrow> real \<Rightarrow> real" where
  "T07YY_Ve Vcu Vg = Vcu * Vg"

definition T07YY_Iu :: "real \<Rightarrow> real \<Rightarrow> real" where
  "T07YY_Iu Vcu Cu = Vcu * Cu"

definition T07YY_Ist :: "real \<Rightarrow> real \<Rightarrow> real" where
  "T07YY_Ist Cs Vln = Cs * Vln"

definition T07YY_Iph :: "real \<Rightarrow> real \<Rightarrow> real" where
  "T07YY_Iph Cp Vln = Cp * Vln"

definition T07YY_Ig :: "real \<Rightarrow> int \<Rightarrow> real" where
  "T07YY_Ig Iph G = real_of_int (1 - G) * (1 - Iph)"

definition T07YY_In :: "bank \<Rightarrow> real \<Rightarrow> int \<Rightarrow> py_error + real" where
  "T07YY_In self Vng G =
     (let num = 3 * Vng * real_of_int G * real_of_int (Pt self - Pa self);
          den = real_of_int (Pt self)
      in safe_div num den)"

text \<open>\<open>_Id\<close> is computed in the loop and dropped; it cannot raise.\<close>

definition T07YY_Id :: "real \<Rightarrow> real \<Rightarrow> real" where
  "T07YY_Id Vln Cp = Vln * (1 - Cp)"

definition T07YY_row :: "bank \<Rightarrow> int \<Rightarrow> int \<Rightarrow> py_error + row" where
  "T07YY_row self G f =
     ebind (T07YY_Ci self f) (\<lambda>Ci.
     ebind (T07YY_Vg self f) (\<lambda>Vg.
     ebind (T07YY_Cu self Ci) (\<lambda>Cu.
     ebind (T07YY_Cg self Cu) (\<lambda>Cg.
     ebind (T07YY_Cs self Cg) (\<lambda>Cs.
     ebind (T07YY_Cp self Cs) (\<lambda>Cp.
     ebind (T07YY_Vng self Cp G) (\<lambda>Vng.
     let Vln = T07YY_Vln Vng in
     ebind (T07YY_Vcu self Vln Cs Cg) (\<lambda>Vcu.
     let Ve = T07YY_Ve Vcu Vg;
         Iu = T07YY_Iu Vcu Cu;
         Ist = T07YY_Ist Cs Vln;
         Iph = T07YY_Iph Cp Vln;
         Ig = T07YY_Ig Iph G
     in
     ebind (T07YY_In self Vng G) (\<lambda>In.
     Inr [(''G'', IntC G), (''f'', IntC f),
          (''Ci'', Flt (py_round Ci 6)),
          (''Vg'', Flt (py_round Vg 6)),
          (''Cu'', Flt (py_round Cu 6)),
          (''Cg'', Flt (py_round Cg 6)),
          (''Cs'', Flt (py_round Cs 6)),
          (''Cp'', Flt (py_round Cp 6)),
          (''Vng'', Flt (py_round Vng 6)),
          (''Vln'', Flt (py_round Vln 6)),
          (''Vcu'', Flt (py_round Vcu 6)),
          (''Ve'', Flt (py_round Ve 6)),
          (''Iu'', Flt (py_round Iu 6)),
          (''Ist'', Flt (py_round Ist 6)),
          (''Iph'', Flt (py_round Iph 6)),
          (''Ig'', Flt (py_round Ig 6)),
          (''In'', Flt (py_round In 6))])))))))))"

definition T07YY_resultados :: "bank \<Rightarrow> int \<Rightarrow> int list option \<Rightarrow> py_error + row list" where
  "T07YY_resultados self G f_values =
     (if \<not> G_ok G then Inl ValueError
      else for_each (T07YY_row self G)
             (case f_values of None \<Rightarrow> [0 .. N self - 1] | Some fs \<Rightarrow> fs))"

definition T07YY_calcular :: "bank \<Rightarrow> int \<Rightarrow> int list option \<Rightarrow> (py_error + frame) \<times> bank" where
  "T07YY_calcular self G f_values = store self (T07YY_resultados self G f_values)"

section \<open>Double wye, external fuses: \<open>Table03DoubleWyeFig29\<close>\<close>

definition T03_validate :: "bank \<Rightarrow> py_error + unit" where
  "T03_validate self =
     (if list_ex (\<lambda>v. v \<le> 0) [S self, Pt self, Pa self] then Inl ValueError else Inr ())"

definition T03_Cg :: "bank \<Rightarrow> int \<Rightarrow> py_error + real" where
  "T03_Cg self n = safe_div (real_of_int (Pa self - n)) (real_of_int (Pa self))"

definition T03_Cs :: "bank \<Rightarrow> real \<Rightarrow> py_error + real" where
  "T03_Cs self Cg =
     (let num = real_of_int (S self) * Cg;
          den = Cg * real_of_int (S self - 1) + 1
      in safe_div num den)"

definition T03_Cp :: "bank \<Rightarrow> real \<Rightarrow> py_error + real" where
  "T03_Cp self Cs =
     (let num = Cs * real_of_int (Pa self) + real_of_int (Pt self - Pa self);
          den = real_of_int (Pt self)
      in safe_div num den)"

definition T03_Vng :: "bank \<Rightarrow> real \<Rightarrow> int \<Rightarrow> py_error + real" where
  "T03_Vng self Cp G =
     ebind (safe_div 3 (2 + Cp)) (\<lambda>inner. Inr (real_of_int G * (inner - 1)))"

definition T03_Vln :: "real \<Rightarrow> real" where
  "T03_Vln Vng = 1 + Vng"

definition T03_Vcu :: "bank \<Rightarrow> real \<Rightarrow> real \<Rightarrow> real \<Rightarrow> py_error + real" where
  "T03_Vcu self Vln Cs Cg =
     (if \<bar>Cg\<bar> < 1 / 10 ^ 12 then Inr (Vln * real_of_int (S self))
      else safe_div (Vln * Cs) Cg)"

definition T03_Iu :: "bank \<Rightarrow> real \<Rightarrow> real" where
  "T03_Iu self Vcu = Vcu * Cu_fixed self"

definition T03_Iy :: "real \<Rightarrow> real \<Rightarrow> real" where
  "T03_Iy Cs Vln = Cs * Vln"

definition T03_Iph :: "real \<Rightarrow> real \<Rightarrow> real" where
  "T03_Iph Cp Vln = Cp * Vln"

definition T03_Ig :: "real \<Rightarrow> int \<Rightarrow> real" where
  "T03_Ig Iph G = real_of_int (1 - G) * (1 - Iph)"

definition T03_In :: "bank \<Rightarrow> real \<Rightarrow> int \<Rightarrow> py_error + real" where
  "T03_In self Vng G =
     safe_div (3 * Vng * real_of_int G * real_of_int (Pt self - Pa self)) (real_of_int (Pt self))"

definition T03_row :: "bank \<Rightarrow> int \<Rightarrow> int \<Rightarrow> py_error + row" where
  "T03_row self G n =
     (if n < 0 \<or> n > Pa self then Inl ValueError
      else
     ebind (T03_Cg self n) (\<lambda>Cg.
     ebind (T03_Cs self Cg) (\<lambda>Cs.
     ebind (T03_Cp self Cs) (\<lambda>Cp.
     ebind (T03_Vng self Cp G) (\<lambda>Vng.
     let Vln = T03_Vln Vng in
     ebind (T03_Vcu self Vln Cs Cg) (\<lambda>Vcu.
     let Iu = T03_Iu self Vcu;
         Iy = T03_Iy Cs Vln;
         Iph = T03_Iph Cp Vln;
         Ig = T03_Ig Iph G
     in
     ebind (T03_In self Vng G) (\<lambda>In.
     Inr [(''G'', IntC G), (''n'', IntC n),
          (''Cu(fixed)'', Flt (Cu_fixed self)),
          (''Cg'', Flt (py_round Cg 6)),
          (''Cs'', Flt (py_round Cs 6)),
          (''Cp'', Flt (py_round Cp 6)),
          (''Vng'', Flt (py_round Vng 6)),
          (''Vln'', Flt (py_round Vln 6)),
          (''Vcu'', Flt (py_round Vcu 6)),
          (''Iu'', Flt (py_round Iu 6)),
          (''Iy'', Flt (py_round Iy 6)),
          (''Iph'', Flt (py_round Iph 6)),
          (''Ig'', Flt (py_round Ig 6)),
          (''In'', Flt (py_round In 6))])))))))"

definition T03_resultados :: "bank \<Rightarrow> int \<Rightarrow> int list option \<Rightarrow> py_error + row list" where
  "T03_resultados self G n_values =
     (if \<not> G_ok G then Inl ValueError
      else for_each (T03_row self G)
             (case n_values of None \<Rightarrow> [0 .. Pa self - 2 - 1] | Some ns \<Rightarrow> ns))"

definition T03_calcular :: "bank \<Rightarrow> int \<Rightarrow> int list option \<Rightarrow> (py_error + frame) \<times> bank" where
  "T03_calcular self G n_values = store self (T03_resultados self G n_values)"

section \<open>H-bridge, internal fuses: \<open>Tabela08HBridgeCalculada\<close>\<close>

definition T08_check_parameters :: "bank \<Rightarrow> py_error + unit" where
  "T08_check_parameters self =
     (if S self \<le> 0 \<or> St self \<le> 0 \<or> Pt self \<le> 0 \<or> P self \<le> 0 \<or> N self \<le> 0 \<or> Su self \<le> 0
      then Inl ValueError
      else if S self = St self then Inl ValueError
      else Inr ())"

definition T08_Cu :: "bank \<Rightarrow> int \<Rightarrow> py_error + real" where
  "T08_Cu self f =
     truediv (real_of_int (Su self * (N self - f)))
             (real_of_int ((N self - f) * (Su self - 1) + N self))"

definition T08_Chn :: "bank \<Rightarrow> real \<Rightarrow> py_error + real" where
  "T08_Chn self Cu =
     ebind (truediv ((Cu + real_of_int (P self) - 1) * real_of_int (P self))
                    ((Cu + real_of_int (P self) - 1) * real_of_int (St self - 1)
                       + real_of_int (P self))) (\<lambda>t1.
     ebind (truediv (real_of_int (Pt self - P self)) (real_of_int (St self))) (\<lambda>t2.
     Inr (t1 + t2)))"

definition T08_Cp :: "bank \<Rightarrow> real \<Rightarrow> py_error + real" where
  "T08_Cp self Chn =
     truediv (Chn * real_of_int (Pt self))
             (Chn * real_of_int (S self - St self) + real_of_int (Pt self))"

definition T08_Vln :: "real \<Rightarrow> real \<Rightarrow> int \<Rightarrow> py_error + real" where
  "T08_Vln Cp Cp0 G =
     ebind (truediv Cp Cp0) (\<lambda>ratio.
     ebind (truediv 3 (2 + ratio)) (\<lambda>q.
     Inr (1 + real_of_int G * (q - 1))))"

definition T08_Vh :: "real \<Rightarrow> real \<Rightarrow> py_error + real" where
  "T08_Vh Cp Chn = truediv Cp Chn"

definition T08_Ih :: "bank \<Rightarrow> real \<Rightarrow> real \<Rightarrow> py_error + real" where
  "T08_Ih self Vln Vh =
     ebind (truediv (real_of_int (St self)) (real_of_int (S self))) (\<lambda>a.
     ebind (truediv 1 (real_of_int (S self - St self))) (\<lambda>b1.
     ebind (truediv 1 (real_of_int (St self))) (\<lambda>b2.
     ebind (truediv (real_of_int (S self * (Pt self - Pa self))) (real_of_int (Pt self))) (\<lambda>c.
     Inr (- Vln * (a - Vh) * (b1 + b2) * c)))))"

definition T08_Vcu :: "bank \<Rightarrow> real \<Rightarrow> real \<Rightarrow> real \<Rightarrow> py_error + real" where
  "T08_Vcu self Vln Vh Cu =
     truediv (Vln * Vh * real_of_int (P self) * real_of_int (S self))
             (real_of_int (P self) + real_of_int (St self - 1) * (Cu + real_of_int (P self) - 1))"

definition T08_Ve :: "bank \<Rightarrow> real \<Rightarrow> int \<Rightarrow> py_error + real" where
  "T08_Ve self Vcu f =
     truediv (Vcu * real_of_int (Su self) * real_of_int (N self))
             (real_of_int (Su self * (N self - f) + f))"

definition T08_Iu :: "real \<Rightarrow> real \<Rightarrow> real" where
  "T08_Iu Vcu Cu = Vcu * Cu"

text \<open>The reference \<open>Cp(0)\<close> computed before the loop.\<close>

definition T08_Cp0 :: "bank \<Rightarrow> py_error + real" where
  "T08_Cp0 self =
     ebind (T08_Cu self 0) (\<lambda>Cu0.
     ebind (T08_Chn self Cu0) (\<lambda>Chn0.
     T08_Cp self Chn0))"

definition T08_row :: "bank \<Rightarrow> int \<Rightarrow> real \<Rightarrow> int \<Rightarrow> py_error + row" where
  "T08_row self G Cp0 f =
     ebind (T08_Cu self f) (\<lambda>Cu.
     ebind (T08_Chn self Cu) (\<lambda>Chn.
     ebind (T08_Cp self Chn) (\<lambda>Cp.
     ebind (T08_Vln Cp Cp0 G) (\<lambda>Vln.
     ebind (T08_Vh Cp Chn) (\<lambda>Vh.
     ebind (T08_Ih self Vln Vh) (\<lambda>Ih.
     ebind (T08_Vcu self Vln Vh Cu) (\<lambda>Vcu.
     ebind (T08_Ve self Vcu f) (\<lambda>Ve.
     let Iu = T08_Iu Vcu Cu in
     Inr [(''G'', IntC G), (''f'', IntC f),
          (''Cu'', Flt (py_round Cu 6)),
          (''Chn'', Flt (py_round Chn 6)),
          (''Cp'', Flt (py_round Cp 6)),
          (''Cp0'', Flt (py_round Cp0 6)),
          (''Vln'', Flt (py_round Vln 6)),
          (''Vh'', Flt (py_round Vh 6)),
          (''Ih'', Flt (py_round Ih 6)),
          (''Vcu'', Flt (py_round Vcu 6)),
          (''Ve'', Flt (py_round Ve 6)),
          (''Iu'', Flt (py_round Iu 6))]))))))))"

text \<open>\<open>calcular(G)\<close> takes no index sequence: it always sweeps \<open>np.arange(N)\<close>.\<close>

definition T08_resultados :: "bank \<Rightarrow> int \<Rightarrow> py_error + row list" where
  "T08_resultados self G =
     (if \<not> G_ok G then Inl ValueError
      else ebind (T08_Cp0 self) (\<lambda>Cp0. for_each (T08_row self G Cp0) [0 .. N self - 1]))"

definition T08_calcular :: "bank \<Rightarrow> int \<Rightarrow> (py_error + frame) \<times> bank" where
  "T08_calcular self G = store self (T08_resultados self G)"

section \<open>H-bridge, external fuses: \<open>Table06HBridgeMinimal\<close>\<close>

text \<open>An element of \<open>n_values\<close>: a number of blown fuses, or the string \<open>"SU"\<close>.\<close>

datatype idx = Idx int | SU

definition T06_validate :: "bank \<Rightarrow> py_error + unit" where
  "T06_validate self =
     (if list_ex (\<lambda>v. v \<le> 0) [S self, St self, Pt self, Pa self] then Inl ValueError
      else if S self \<le> St self then Inl ValueError
      else Inr ())"

definition T06_Chn :: "bank \<Rightarrow> int \<Rightarrow> py_error + real" where
  "T06_Chn self n =
     (let num = (Pa self - n) * Pa self;
          den = (Pa self - n) * (St self - 1) + Pa self
      in ebind (truediv (real_of_int num) (real_of_int den)) (\<lambda>term1.
         ebind (truediv (real_of_int (Pt self - Pa self)) (real_of_int (St self))) (\<lambda>term2.
         Inr (term1 + term2))))"

definition T06_Cp :: "bank \<Rightarrow> real \<Rightarrow> py_error + real" where
  "T06_Cp self Chn =
     (let num = Chn * real_of_int (Pt self);
          den = Chn * real_of_int (S self - St self) + real_of_int (Pt self)
      in truediv num den)"

definition T06_Vln :: "real \<Rightarrow> real \<Rightarrow> int \<Rightarrow> py_error + real" where
  "T06_Vln Cp Cp0 G =
     ebind (truediv Cp Cp0) (\<lambda>ratio.
     ebind (truediv 3 (2 + ratio)) (\<lambda>inner.
     Inr (1 + real_of_int G * (inner - 1))))"

definition T06_Vhn :: "real \<Rightarrow> real \<Rightarrow> py_error + real" where
  "T06_Vhn Cp Chn = truediv Cp Chn"

definition T06_Ih :: "bank \<Rightarrow> real \<Rightarrow> real \<Rightarrow> py_error + real" where
  "T06_Ih self Vln Vhn =
     ebind (truediv (real_of_int (St self)) (real_of_int (S self))) (\<lambda>q.
     let termA = q - Vhn in
     ebind (truediv 1 (real_of_int (S self - St self))) (\<lambda>b1.
     ebind (truediv 1 (real_of_int (St self))) (\<lambda>b2.
     let termB = b1 + b2 in
     ebind (truediv (real_of_int (S self * (Pt self - Pa self))) (real_of_int (Pt self))) (\<lambda>termC.
     Inr (- Vln * termA * termB * termC)))))"

definition T06_Vcu :: "bank \<Rightarrow> real \<Rightarrow> real \<Rightarrow> int \<Rightarrow> py_error + real" where
  "T06_Vcu self Vln Vhn n =
     (let num = Vln * Vhn * real_of_int (Pa self) * real_of_int (S self);
          den = Pa self + (St self - 1) * (Pa self - n)
      in truediv num (real_of_int den))"

definition T06_Iu :: "real \<Rightarrow> real" where
  "T06_Iu Vcu = 1 * Vcu"

definition T06_row :: "bank \<Rightarrow> int \<Rightarrow> real \<Rightarrow> real \<Rightarrow> idx \<Rightarrow> py_error + row" where
  "T06_row self G Chn0 Cp0 i =
     (case i of
        SU \<Rightarrow>
          ebind (T06_Vln Cp0 Cp0 G) (\<lambda>Vln0.
          ebind (T06_Vhn Cp0 Chn0) (\<lambda>Vhn0.
          ebind (T06_Ih self Vln0 Vhn0) (\<lambda>Ih0.
          Inr [(''n'', Txt ''SU''),
               (''Cu(=1)'', Flt 1),
               (''Chn'', Flt (py_round Chn0 6)),
               (''Cp'', Flt (py_round Cp0 6)),
               (''Cp0'', Flt (py_round Cp0 6)),
               (''Vln'', Flt (py_round Vln0 6)),
               (''Vhn'', Flt (py_round Vhn0 6)),
               (''Ih'', Flt (py_round Ih0 6)),
               (''Vcu'', Txt ''SC''),
               (''Iu(=1*Vcu)'', Txt ''SC'')])))
      | Idx n \<Rightarrow>
          if n < 0 \<or> n > Pa self then Inl ValueError
          else
          ebind (T06_Chn self n) (\<lambda>Chn.
          ebind (T06_Cp self Chn) (\<lambda>Cp.
          ebind (T06_Vln Cp Cp0 G) (\<lambda>Vln.
          ebind (T06_Vhn Cp Chn) (\<lambda>Vhn.
          ebind (T06_Ih self Vln Vhn) (\<lambda>Ih.
          ebind (T06_Vcu self Vln Vhn n) (\<lambda>Vcu.
          let Iu = T06_Iu Vcu in
          Inr [(''n'', IntC n),
               (''Cu(=1)'', Flt 1),
               (''Chn'', Flt (py_round Chn 6)),
               (''Cp'', Flt (py_round Cp 6)),
               (''Cp0'', Flt (py_round Cp0 6)),
               (''Vln'', Flt (py_round Vln 6)),
               (''Vhn'', Flt (py_round Vhn 6)),
               (''Ih'', Flt (py_round Ih 6)),
               (''Vcu'', Flt (py_round Vcu 6)),
               (''Iu(=1*Vcu)'', Flt (py_round Iu 6))])))))))"

text \<open>
  \<open>n_values\<close> has the default \<open>None\<close>, which the loop cannot iterate: the class has no
  default sweep of its own.
\<close>

definition T06_resultados :: "bank \<Rightarrow> int \<Rightarrow> idx list option \<Rightarrow> py_error + row list" where
  "T06_resultados self G n_values =
     (if \<not> G_ok G then Inl ValueError
      else
        ebind (T06_Chn self 0) (\<lambda>Chn0.
        ebind (T06_Cp self Chn0) (\<lambda>Cp0.
        case n_values of
          None \<Rightarrow> Inl TypeError
        | Some ns \<Rightarrow> for_each (T06_row self G Chn0 Cp0) ns)))"

definition T06_calcular :: "bank \<Rightarrow> int \<Rightarrow> idx list option \<Rightarrow> (py_error + frame) \<times> bank" where
  "T06_calcular self G n_values = store self (T06_resultados self G n_values)"

text \<open>
  The sweep of \<open>MasterBankClasses.compute_table06_from_dict\<close>:
  \<open>n_values = np.arange(0, Pa, 1)\<close> on a freshly constructed object.
\<close>

definition compute_table06_n_values :: "bank \<Rightarrow> idx list" where
  "compute_table06_n_values self = map Idx [0 .. Pa self - 1]"

definition compute_table06_ieee :: "bank \<Rightarrow> int \<Rightarrow> py_error + frame" where
  "compute_table06_ieee self G =
     ebind (T06_validate self) (\<lambda>_.
       fst (T06_calcular self G (Some (compute_table06_n_values self))))"

section \<open>\<open>ElectricalUtils\<close>: nominal quantities and unit conversion\<close>

text \<open>
  The nameplate dict \<open>dados_banco\<close>: numbers by key. \<open>float()\<close> of a number is the
  number and \<open>int()\<close> truncates it. The dict that \<open>calcular_nominais_celula\<close> returns
  holds a float or \<open>None\<close> under each key, in insertion order.
\<close>

type_synonym dados = "string \<rightharpoonup> real"
type_synonym nominais = "(string \<times> real option) list"

definition getitem :: "(string \<rightharpoonup> 'a) \<Rightarrow> string \<Rightarrow> py_error + 'a" where
  "getitem d k = (case d k of None \<Rightarrow> Inl KeyError | Some v \<Rightarrow> Inr v)"

text \<open>\<open>x / n\<close> where \<open>x\<close> may be \<open>None\<close>.\<close>

definition div_none :: "real option \<Rightarrow> real \<Rightarrow> py_error + real" where
  "div_none x n = (case x of None \<Rightarrow> Inl TypeError | Some v \<Rightarrow> truediv v n)"

definition calcular_nominais_celula :: "dados \<Rightarrow> py_error + nominais" where
  "calcular_nominais_celula dados_banco =
     ebind (getitem dados_banco ''tensao_trifasica_banco_V'') (\<lambda>V_ll.
     ebind (getitem dados_banco ''V_rated'') (\<lambda>V_rated.
     ebind (getitem dados_banco ''potencia_trifasica_banco_VAr'') (\<lambda>Q_total.
     ebind (getitem dados_banco ''frequencia_Hz'') (\<lambda>f.
     ebind (getitem dados_banco ''S'') (\<lambda>S_raw.
     ebind (getitem dados_banco ''Pt'') (\<lambda>Pt_raw.
     let S' = real_of_int (py_int S_raw);
         Pt' = real_of_int (py_int Pt_raw);
         Su' = map_option (\<lambda>v. real_of_int (py_int v)) (dados_banco ''Su'');
         N' = map_option (\<lambda>v. real_of_int (py_int v)) (dados_banco ''N'')
     in
     ebind (truediv V_ll (sqrt 3)) (\<lambda>V_phase.
     ebind (truediv Q_total (sqrt 3 * V_ll)) (\<lambda>I_bank.
     let Q_phase = Q_total / 3 in
     ebind (truediv Q_phase (2 * pi * f * V_phase ^ 2)) (\<lambda>C_phase.
     ebind (truediv (C_phase * S') Pt') (\<lambda>C_unit.
     ebind (truediv V_phase S') (\<lambda>V_unit.
     ebind (truediv I_bank Pt') (\<lambda>I_unit.
     let C_grupo_serie = map_option (\<lambda>su. C_unit * su) Su' in
     ebind (case Su' of None \<Rightarrow> Inr None
            | Some su \<Rightarrow> ebind (truediv V_unit su) (\<lambda>v. Inr (Some v))) (\<lambda>V_grupo_serie.
     let I_grupo_serie = map_option (\<lambda>_. I_unit) Su' in
     ebind (case N' of None \<Rightarrow> Inr None
            | Some n \<Rightarrow> ebind (div_none C_grupo_serie n) (\<lambda>v. Inr (Some v))) (\<lambda>C_element.
     let V_element = (case N' of None \<Rightarrow> None | Some _ \<Rightarrow> V_grupo_serie) in
     ebind (case N' of None \<Rightarrow> Inr None
            | Some n \<Rightarrow> ebind (div_none I_grupo_serie n) (\<lambda>v. Inr (Some v))) (\<lambda>I_element.
     Inr [(''V_ll'', Some V_ll),
          (''V_phase'', Some V_phase),
          (''I_bank'', Some I_bank),
          (''C_phase'', Some C_phase),
          (''C_unit'', Some C_unit),
          (''V_unit'', Some V_unit),
          (''I_unit'', Some I_unit),
          (''C_grupo_serie'', C_grupo_serie),
          (''V_grupo_serie'', V_grupo_serie),
          (''I_grupo_serie'', I_grupo_serie),
          (''C_element'', C_element),
          (''V_element'', V_element),
          (''I_element'', I_element),
          (''V_rated'', Some V_rated),
          (''S'', Some S')])))))))))))))))"

text \<open>
  \<open>_round_or_int\<close> behind \<open>formatar_valores\<close> (four decimals); \<open>float(x).is_integer()\<close> holds
  when \<open>x\<close> equals its floor.
\<close>

definition round_or_int :: "cell \<Rightarrow> nat \<Rightarrow> cell" where
  "round_or_int x decimals =
     (case x of
        IntC i \<Rightarrow> IntC i
      | Flt v \<Rightarrow> if real_of_int \<lfloor>v\<rfloor> = v then IntC (py_int v) else Flt (py_round v decimals)
      | Txt t \<Rightarrow> Txt t
      | NaN \<Rightarrow> NaN)"

definition formatar_valores :: "cell \<Rightarrow> cell" where
  "formatar_valores valor = round_or_int valor 4"

text \<open>A column times a float: a string cell cannot be multiplied, a missing one stays missing.\<close>

definition mul_cell :: "real \<Rightarrow> cell \<Rightarrow> py_error + cell" where
  "mul_cell c x =
     (case x of
        IntC i \<Rightarrow> Inr (Flt (real_of_int i * c))
      | Flt v \<Rightarrow> Inr (Flt (v * c))
      | Txt _ \<Rightarrow> Inl TypeError
      | NaN \<Rightarrow> Inr NaN)"

definition mul_col :: "cell list \<Rightarrow> real \<Rightarrow> py_error + cell list" where
  "mul_col col c = for_each (mul_cell c) col"

text \<open>\<open>resultados[k]\<close> used as a factor: a missing key and a \<open>None\<close> value both raise.\<close>

definition factor_of :: "(string \<rightharpoonup> real option) \<Rightarrow> string \<Rightarrow> py_error + real" where
  "factor_of resultados k =
     (case resultados k of
        None \<Rightarrow> Inl KeyError
      | Some None \<Rightarrow> Inl TypeError
      | Some (Some v) \<Rightarrow> Inr v)"

text \<open>
  One block \<open>if c in df.columns: out[c] = df[c]; out[c'] = ...\<close> of the converter,
  appending to \<open>out\<close>. The product is \<open>unit * df[c] * resultados[k]\<close> when
  \<open>unit_first\<close> holds and \<open>df[c] * resultados[k] * unit\<close> otherwise (\<open>unit = 1\<close>
  where the source has no unit factor); Python evaluates it from the left.
\<close>

definition convert_block ::
  "frame \<Rightarrow> (string \<rightharpoonup> real option) \<Rightarrow> string \<Rightarrow> string \<Rightarrow> string \<Rightarrow> bool \<Rightarrow> real \<Rightarrow> frame
     \<Rightarrow> py_error + frame" where
  "convert_block fr resultados c c' k unit_first unit out =
     (case map_of fr c of
        None \<Rightarrow> Inr out
      | Some col \<Rightarrow>
          ebind (if unit_first then
                   ebind (mul_col col unit) (\<lambda>scaled.
                   ebind (factor_of resultados k) (\<lambda>b. mul_col scaled b))
                 else
                   ebind (factor_of resultados k) (\<lambda>b.
                   ebind (mul_col col b) (\<lambda>scaled. mul_col scaled unit))) (\<lambda>real_col.
          Inr (out @ [(c, col), (c', real_col)])))"

definition Vcu2_block :: "(string \<rightharpoonup> real option) \<Rightarrow> cell list \<Rightarrow> frame \<Rightarrow> py_error + frame" where
  "Vcu2_block resultados col out =
     (if resultados ''V_rated'' \<noteq> None \<and> resultados ''S'' \<noteq> None then
        ebind (factor_of resultados ''V_rated'') (\<lambda>V_rated.
        ebind (factor_of resultados ''S'') (\<lambda>S'.
        ebind (truediv (V_rated / sqrt 3) S') (\<lambda>V_unit_rated.
        ebind (factor_of resultados ''V_unit'') (\<lambda>V_unit.
        ebind (truediv V_unit V_unit_rated) (\<lambda>factor.
        ebind (mul_col col factor) (\<lambda>c2.
        Inr (out @ [(''Vcu2'', c2)])))))))
      else Inr out)"

definition converter_unidades :: "frame \<Rightarrow> (string \<rightharpoonup> real option) \<Rightarrow> py_error + frame" where
  "converter_unidades fr resultados =
     ebind (convert_block fr resultados ''Cp'' ''Cp_uF'' ''C_phase'' True (10 ^ 6) []) (\<lambda>out.
     ebind (convert_block fr resultados ''Cu'' ''C_unit_uF'' ''C_unit'' True (10 ^ 6) out) (\<lambda>out.
     ebind (convert_block fr resultados ''Vng'' ''V_ng_V'' ''V_phase'' False 1 out) (\<lambda>out.
     ebind (convert_block fr resultados ''In'' ''In_A'' ''I_bank'' False 1 out) (\<lambda>out.
     ebind (convert_block fr resultados ''Ig'' ''Ig_A'' ''I_bank'' False 1 out) (\<lambda>out.
     ebind (convert_block fr resultados ''Chn'' ''Chn_uF'' ''C_phase'' False (10 ^ 6) out) (\<lambda>out.
     ebind (convert_block fr resultados ''Vhn'' ''Vhn_V'' ''V_phase'' False 1 out) (\<lambda>out.
     ebind (convert_block fr resultados ''Ih'' ''Ih_A'' ''I_bank'' False 1 out) (\<lambda>out.
     ebind (convert_block fr resultados ''Vcu'' ''Vcu_kV'' ''V_unit'' False (1 / 10 ^ 3) out) (\<lambda>out.
     ebind (case map_of fr ''Vcu'' of
              None \<Rightarrow> Inr out
            | Some col \<Rightarrow> Vcu2_block resultados col out) (\<lambda>out.
     Inr (map (\<lambda>(name, col). (name, map formatar_valores col)) out)))))))))))"

section \<open>\<open>_postprocess_and_export\<close>: the critical row\<close>

text \<open>A cell compared with a float: a string raises, a missing value compares false.\<close>

definition num_cell :: "cell \<Rightarrow> py_error + real option" where
  "num_cell x =
     (case x of
        IntC i \<Rightarrow> Inr (Some (real_of_int i))
      | Flt v \<Rightarrow> Inr (Some v)
      | Txt _ \<Rightarrow> Inl TypeError
      | NaN \<Rightarrow> Inr None)"

text \<open>\<open>int(x)\<close> of a cell.\<close>

definition int_cell :: "cell \<Rightarrow> py_error + int" where
  "int_cell x =
     (case x of
        IntC i \<Rightarrow> Inr i
      | Flt v \<Rightarrow> Inr (py_int v)
      | Txt _ \<Rightarrow> Inl ValueError
      | NaN \<Rightarrow> Inl ValueError)"

text \<open>\<open>idxmax\<close>: the first entry that holds the maximum.\<close>

fun idxmax :: "'a \<times> real \<Rightarrow> ('a \<times> real) list \<Rightarrow> 'a \<times> real" where
  "idxmax best [] = best"
| "idxmax best (x # xs) = idxmax (if snd best < snd x then x else best) xs"

text \<open>The rows selected by \<open>mask = df_ieee["Vcu"] <= 1.1\<close>, each with its cell of the key column.\<close>

definition masked :: "cell list \<Rightarrow> real option list \<Rightarrow> (cell \<times> real) list" where
  "masked keys vcu =
     concat (map (\<lambda>(k, v). case v of None \<Rightarrow> [] | Some x \<Rightarrow> if x \<le> 11 / 10 then [(k, x)] else [])
                 (zip keys vcu))"

definition key_column :: "frame \<Rightarrow> cell list option" where
  "key_column df_ieee =
     (case map_of df_ieee ''f'' of
        Some c \<Rightarrow> Some c
      | None \<Rightarrow> map_of df_ieee ''n'')"

definition line_max_vcu :: "frame \<Rightarrow> py_error + int option" where
  "line_max_vcu df_ieee =
     (case (map_of df_ieee ''Vcu'', key_column df_ieee) of
        (Some vcu_col, Some keys) \<Rightarrow>
          ebind (for_each num_cell vcu_col) (\<lambda>vcu.
          case masked keys vcu of
            [] \<Rightarrow> Inr None
          | c # cs \<Rightarrow> ebind (int_cell (fst (idxmax c cs))) (\<lambda>i. Inr (Some i)))
      | _ \<Rightarrow> Inr None)"

text \<open>
  \<open>_postprocess_and_export\<close> without its file exports and without a
  \<open>real_units_hook\<close>: the converted table and the critical row handed to the exporter.
\<close>

definition postprocess :: "frame \<Rightarrow> dados \<Rightarrow> py_error + (frame \<times> int option)" where
  "postprocess df_ieee d =
     ebind (calcular_nominais_celula d) (\<lambda>bases.
     ebind (converter_unidades df_ieee (map_of bases)) (\<lambda>df_real.
     ebind (line_max_vcu df_ieee) (\<lambda>line.
     Inr (df_real, line))))"

text \<open>
  The critical row in the words of the specification, for comparison: the fault index
  at which the rated-voltage ratio (the column \<open>Vcu2\<close> of the converted table) is maximal
  among the rows where it does not exceed 1.10.
\<close>

definition spec_critical_row :: "frame \<Rightarrow> frame \<Rightarrow> py_error + int option" where
  "spec_critical_row df_ieee df_real =
     (case (map_of df_real ''Vcu2'', key_column df_ieee) of
        (Some ratio_col, Some keys) \<Rightarrow>
          ebind (for_each num_cell ratio_col) (\<lambda>ratio.
          case masked keys ratio of
            [] \<Rightarrow> Inr None
          | c # cs \<Rightarrow> ebind (int_cell (fst (idxmax c cs))) (\<lambda>i. Inr (Some i)))
      | _ \<Rightarrow> Inr None)"

section \<open>\<open>validation.validators\<close>\<close>

record ValidationResult =
  is_valid :: bool
  errors :: "string list"
  warnings :: "string list"

text \<open>The text of a \<open>NominalDataError\<close>, in ASCII and without the numbers it quotes.\<close>

fun message :: "nominal_msg \<Rightarrow> string" where
  "message (Missing_key k) = ''Dados nominais incompletos: chave ausente '' @ k"
| "message S_below_1 = ''S deve ser >= 1.''"
| "message Pt_below_1 = ''Pt deve ser >= 1.''"
| "message Pa_below_0 = ''Pa deve ser >= 0.''"
| "message Pa_above_Pt = ''Pa deve ser <= Pt.''"
| "message (Right_side_below_1 d) = ''Combinacao invalida: o lado direito teria Pt-Pa < 1.''"
| "message Pt_not_equal_Pa = ''Para y_internal_fuses, Pt deve ser igual a Pa.''"
| "message P_below_1 = ''P deve ser >= 1.''"
| "message (Pa_not_multiple_of_P a b) = ''Combinacao invalida: Pa deve ser multiplo de P.''"

definition require_key :: "dados \<Rightarrow> string \<Rightarrow> py_error + unit" where
  "require_key data k =
     (if data k = None then Inl (NominalDataError (Missing_key k)) else Inr ())"

definition int_of_key :: "dados \<Rightarrow> string \<Rightarrow> py_error + int" where
  "int_of_key data k = ebind (getitem data k) (\<lambda>v. Inr (py_int v))"

definition check :: "bool \<Rightarrow> nominal_msg \<Rightarrow> py_error + unit" where
  "check bad msg = (if bad then Inl (NominalDataError msg) else Inr ())"

definition validate_nominal_data :: "string \<Rightarrow> dados \<Rightarrow> py_error + unit" where
  "validate_nominal_data topology data =
     ebind (for_each (require_key data) [''S'', ''Pt'', ''Pa'']) (\<lambda>_.
     ebind (int_of_key data ''S'') (\<lambda>S'.
     ebind (int_of_key data ''Pt'') (\<lambda>Pt'.
     ebind (int_of_key data ''Pa'') (\<lambda>Pa'.
     ebind (check (S' < 1) S_below_1) (\<lambda>_.
     ebind (check (Pt' < 1) Pt_below_1) (\<lambda>_.
     ebind (check (Pa' < 0) Pa_below_0) (\<lambda>_.
     ebind (check (Pa' > Pt') Pa_above_Pt) (\<lambda>_.
     ebind (check (topology \<in> set [''yy_internal_fuses'', ''yy_external_fuses'']
                   \<and> Pt' - Pa' < 1) (Right_side_below_1 (Pt' - Pa'))) (\<lambda>_.
     ebind (check (topology = ''y_internal_fuses'' \<and> Pa' \<noteq> Pt') Pt_not_equal_Pa) (\<lambda>_.
     if topology \<in> set [''yy_internal_fuses'', ''y_internal_fuses''] then
       ebind (require_key data ''P'') (\<lambda>_.
       ebind (int_of_key data ''P'') (\<lambda>P'.
       ebind (check (P' < 1) P_below_1) (\<lambda>_.
       check (Pa' mod P' \<noteq> 0) (Pa_not_multiple_of_P Pa' P'))))
     else Inr ()))))))))))"

text \<open>\<open>data.get(k, default)\<close> followed by \<open>int()\<close>.\<close>

definition get_int :: "dados \<Rightarrow> string \<Rightarrow> int \<Rightarrow> int" where
  "get_int data k dflt = (case data k of None \<Rightarrow> dflt | Some v \<Rightarrow> py_int v)"

text \<open>\<open>validate_h_bridge_inputs\<close> of the drawing module, on integers.\<close>

definition validate_h_bridge_inputs :: "int \<Rightarrow> int \<Rightarrow> int \<Rightarrow> int \<Rightarrow> int \<Rightarrow> ValidationResult" where
  "validate_h_bridge_inputs S' St' Pt' Pa' P' =
     (let errors1 = concat (map (\<lambda>(name, val). if val < 1 then [name @ '' must be >= 1.''] else [])
                        [(''S'', S'), (''St'', St'), (''Pt'', Pt'), (''Pa'', Pa'), (''P'', P')])
      in if errors1 \<noteq> [] then \<lparr>is_valid = False, errors = errors1, warnings = []\<rparr>
      else
        let errors2 =
              (if S' < 2 then [''S must be >= 2.''] else []) @
              (if St' < 1 \<or> St' > S' - 1 then [''St must satisfy 1 <= St <= S-1.''] else []) @
              (if Pa' < 1 \<or> Pa' \<ge> Pt' then [''Pa must satisfy 1 <= Pa <= Pt-1.''] else []) @
              (if P' < 1 then [''P must be >= 1.''] else []) @
              (if Pa' < P' then [''Pa must be >= P.''] else []) @
              (if Pt' < 2 * P' then [''Pt must be >= 2*P.''] else [])
        in if errors2 \<noteq> [] then \<lparr>is_valid = False, errors = errors2, warnings = []\<rparr>
        else
          \<lparr>is_valid = True, errors = [],
           warnings =
             (if (Pt' div P') mod 2 \<noteq> 0
              then [''Pt//P is odd (right-side split into two equal big groups becomes asymmetric).'']
              else []) @
             (if Pa' - P' < 1
              then [''Pa == P: left leg becomes a single ladder block (no split).'']
              else [])\<rparr>)"

text \<open>
  \<open>validate_inputs\<close> catches \<open>NominalDataError\<close> only; on a dict of numbers
  \<open>validate_nominal_data\<close> raises nothing else.
\<close>

definition validate_inputs :: "string \<Rightarrow> dados \<Rightarrow> py_error + ValidationResult" where
  "validate_inputs topology data =
     (if topology \<in> set [''h_bridge_internal_fuses'', ''h_bridge_external_fuses''] then
        Inr (validate_h_bridge_inputs (get_int data ''S'' 7) (get_int data ''St'' 3)
               (get_int data ''Pt'' 9) (get_int data ''Pa'' 5) (get_int data ''P'' 2))
      else
        (case validate_nominal_data topology data of
           Inl (NominalDataError msg) \<Rightarrow>
             Inr \<lparr>is_valid = False, errors = [message msg], warnings = []\<rparr>
         | Inl e \<Rightarrow> Inl e
         | Inr _ \<Rightarrow> Inr \<lparr>is_valid = True, errors = [], warnings = []\<rparr>))"

section \<open>Example objects\<close>

text \<open>A bank that every one of the five constructors accepts.\<close>

definition example_bank :: bank where
  "example_bank = \<lparr>S = 4, St = 3, Pt = 6, Pa = 6, P = 3, N = 14, Su = 3, Cu_fixed = 1, df = []\<rparr>"

text \<open>The example bank after a sweep stored a table.\<close>

definition stored_bank :: bank where
  "stored_bank = example_bank\<lparr>df := [(''f'', [IntC 0])]\<rparr>"

text \<open>A single-wye bank with one unit per group (\<open>P = 1\<close>).\<close>

definition collapsed_bank :: bank where
  "collapsed_bank = \<lparr>S = 4, St = 3, Pt = 1, Pa = 1, P = 1, N = 14, Su = 3, Cu_fixed = 1, df = []\<rparr>"

text \<open>The double-wye bank of the usage example in \<open>yy_external_fuses.py\<close>.\<close>

definition t03_bank :: bank where
  "t03_bank = \<lparr>S = 4, St = 3, Pt = 14, Pa = 8, P = 3, N = 14, Su = 3, Cu_fixed = 1, df = []\<rparr>"

text \<open>The H-bridge bank of the usage example in \<open>h_bridge_external_fuses.py\<close>.\<close>

definition t06_bank :: bank where
  "t06_bank = \<lparr>S = 5, St = 3, Pt = 15, Pa = 8, P = 2, N = 16, Su = 3, Cu_fixed = 1, df = []\<rparr>"

text \<open>A small bank that all five constructors accept.\<close>

definition small_bank :: bank where
  "small_bank = \<lparr>S = 2, St = 1, Pt = 3, Pa = 3, P = 1, N = 2, Su = 2, Cu_fixed = 1, df = []\<rparr>"

text \<open>\<open>df[k]\<close> as a list of cells (empty when the table has no such column).\<close>

definition column :: "frame \<Rightarrow> string \<Rightarrow> cell list" where
  "column fr k = (case map_of fr k of None \<Rightarrow> [] | Some c \<Rightarrow> c)"

text \<open>Nominal data of a single-wye bank with internal fuses.\<close>

definition y_data :: "int \<Rightarrow> int \<Rightarrow> int \<Rightarrow> int \<Rightarrow> dados" where
  "y_data s pt pa p =
     map_of [(''S'', real_of_int s), (''Pt'', real_of_int pt), (''Pa'', real_of_int pa),
             (''P'', real_of_int p)]"

text \<open>A nameplate dict without the optional keys \<open>Su\<close> and \<open>N\<close>.\<close>

definition nameplate :: "real \<Rightarrow> real \<Rightarrow> real \<Rightarrow> real \<Rightarrow> int \<Rightarrow> int \<Rightarrow> dados" where
  "nameplate V_ll V_rated Q_total f s pt =
     map_of [(''tensao_trifasica_banco_V'', V_ll), (''V_rated'', V_rated),
             (''potencia_trifasica_banco_VAr'', Q_total), (''frequencia_Hz'', f),
             (''S'', real_of_int s), (''Pt'', real_of_int pt)]"

text \<open>The per-unit columns the converter recognises, and the columns it can produce.\<close>

definition pu_columns :: "string list" where
  "pu_columns = [''Cp'', ''Cu'', ''Vng'', ''In'', ''Ig'', ''Chn'', ''Vhn'', ''Ih'', ''Vcu'']"

definition output_columns :: "string list" where
  "output_columns =
     [''Cp'', ''Cp_uF'', ''Cu'', ''C_unit_uF'', ''Vng'', ''V_ng_V'', ''In'', ''In_A'',
      ''Ig'', ''Ig_A'', ''Chn'', ''Chn_uF'', ''Vhn'', ''Vhn_V'', ''Ih'', ''Ih_A'',
      ''Vcu'', ''Vcu_kV'', ''Vcu2'']"

text \<open>
  The state of \<open>out\<close> between two blocks of the converter: its column names lie in \<open>A\<close>,
  the per-unit columns \<open>B\<close> handled so far are those of the input, and every column has as
  many rows as some input column.
\<close>

definition converted_so_far :: "frame \<Rightarrow> frame \<Rightarrow> string set \<Rightarrow> string set \<Rightarrow> bool" where
  "converted_so_far fr out A B \<longleftrightarrow>
     fst ` set out \<subseteq> A \<and> B \<subseteq> A \<and> (\<forall>x \<in> B. map_of out x = map_of fr x) \<and>
     (\<forall>n col'. (n, col') \<in> set out \<longrightarrow>
        (\<exists>c0 col. map_of fr c0 = Some col \<and> length col' = length col))"

text \<open>A per-unit table with two columns the converter does not recognise.\<close>

definition pu_table :: frame where
  "pu_table = [(''f'', [IntC 0, IntC 1]), (''Vln'', [Flt 1, Flt 1.004]),
               (''Cp'', [Flt 1, Flt 0.98765432])]"

definition pu_bases :: "string \<rightharpoonup> real option" where
  "pu_bases = map_of [(''C_phase'', Some (2 / 10 ^ 6)), (''C_unit'', Some (3 / 10 ^ 6)),
                      (''V_phase'', Some 8000), (''I_bank'', Some 125), (''V_unit'', Some 2000)]"

text \<open>A per-unit sweep of three rows, and a bank rated above its service voltage.\<close>

definition ieee_table :: frame where
  "ieee_table = [(''f'', [IntC 0, IntC 1, IntC 2]), (''Vcu'', [Flt 1, Flt 1.08, Flt 1.15])]"

definition rated_nameplate :: dados where
  "rated_nameplate = nameplate 13800 15000 3000000 60 4 6"

section \<open>Basic facts\<close>

lemma ebind_Inr [simp]: "ebind (Inr v) k = k v"
  by (simp add: ebind_def)

lemma ebind_Inl [simp]: "ebind (Inl e) k = Inl e"
  by (simp add: ebind_def)

lemma safe_div_ok: "1 / 10 ^ 12 \<le> \<bar>den\<bar> \<Longrightarrow> safe_div num den = Inr (num / den)"
  by (simp add: safe_div_def)

lemma safe_div_ge1: "1 \<le> den \<Longrightarrow> safe_div num den = Inr (num / den)"
  by (simp add: safe_div_def)

lemma round_half_even_of_int [simp]: "round_half_even (real_of_int k) = k"
  by (simp add: round_half_even_def)

lemma py_round_of_int: "py_round (real_of_int k) nd = real_of_int k"
proof -
  have "real_of_int k * 10 ^ nd = real_of_int (k * 10 ^ nd)" by simp
  then have "round_half_even (real_of_int k * 10 ^ nd) = k * 10 ^ nd"
    by (metis round_half_even_of_int)
  then show ?thesis by (simp add: py_round_def)
qed

lemma py_round_1 [simp]: "py_round 1 nd = 1"
  using py_round_of_int [of 1 nd] by simp

lemma py_round_0 [simp]: "py_round 0 nd = 0"
  using py_round_of_int [of 0 nd] by simp

lemma int_mult_ge1: "1 \<le> a \<Longrightarrow> 1 \<le> (b::int) \<Longrightarrow> 1 \<le> a * b"
  using mult_mono [of 1 a 1 b] by simp

lemma T07Y_validate_ok:
  "T07Y_validate self = Inr () \<longleftrightarrow>
     1 \<le> S self \<and> 1 \<le> Pt self \<and> 1 \<le> P self \<and> 1 \<le> N self \<and> 1 \<le> Su self \<and> Pa self = Pt self"
  by (auto simp: T07Y_validate_def)

lemma T07Y_row_0:
  assumes "T07Y_validate self = Inr ()"
  shows "T07Y_row self G 0 =
     Inr [(''G'', IntC G), (''f'', IntC 0),
          (''Ci'', Flt 1), (''Vg'', Flt 1), (''Cu'', Flt 1), (''Cg'', Flt 1), (''Cs'', Flt 1),
          (''Cp'', Flt 1), (''Vng'', Flt 0), (''Vln'', Flt 1), (''Vcu'', Flt 1), (''Ve'', Flt 1),
          (''Iu'', Flt 1), (''Ist'', Flt 1), (''Iph'', Flt 1), (''Ig'', Flt 0), (''In'', Flt 0)]"
proof -
  from assms have p: "1 \<le> S self" "1 \<le> Pt self" "1 \<le> P self" "1 \<le> N self" "1 \<le> Su self"
    by (simp_all add: T07Y_validate_ok)
  have Ci: "T07Y_Ci self 0 = Inr 1"
    using p by (simp add: T07Y_Ci_def safe_div_ge1)
  have "1 \<le> Su self * N self" using p by (simp add: int_mult_ge1)
  then have gr: "1 \<le> real_of_int (Su self) * real_of_int (N self)"
    by (metis of_int_mult of_int_1_le_iff)
  have Vg: "T07Y_Vg self 0 = Inr 1"
    using gr p by (simp add: T07Y_Vg_def safe_div_ge1 Let_def algebra_simps)
  have Cu: "T07Y_Cu self 1 = Inr 1"
    using p by (simp add: T07Y_Cu_def safe_div_ge1 Let_def)
  have Cg: "T07Y_Cg self 1 = Inr 1"
    using p by (simp add: T07Y_Cg_def safe_div_ge1)
  have Cs: "T07Y_Cs self 1 = Inr 1"
    using p by (simp add: T07Y_Cs_def safe_div_ge1 Let_def)
  have Cp: "T07Y_Cp self 1 = Inr 1"
    using p by (simp add: T07Y_Cp_def safe_div_ge1 Let_def)
  have Vng: "T07Y_Vng self 1 G = Inr 0"
    by (simp add: T07Y_Vng_def safe_div_def)
  have Vcu: "T07Y_Vcu self 1 1 1 = Inr 1"
    by (simp add: T07Y_Vcu_def safe_div_def)
  show ?thesis
    by (simp add: T07Y_row_def Ci Vg Cu Cg Cs Cp Vng Vcu T07Y_Vln_def T07Y_Ve_def T07Y_Iu_def
        T07Y_Ist_def T07Y_Iph_def T07Y_Ig_def T07Y_In_def)
qed


lemma T07YY_validate_ok:
  "T07YY_validate self = Inr () \<longleftrightarrow>
     1 \<le> S self \<and> 1 \<le> Pt self \<and> 1 \<le> Pa self \<and> 1 \<le> P self \<and> 1 \<le> N self \<and> 1 \<le> Su self"
  by (auto simp: T07YY_validate_def)

lemma T07YY_row_0:
  assumes "T07YY_validate self = Inr ()"
  shows "T07YY_row self G 0 =
     Inr [(''G'', IntC G), (''f'', IntC 0),
          (''Ci'', Flt 1), (''Vg'', Flt 1), (''Cu'', Flt 1), (''Cg'', Flt 1), (''Cs'', Flt 1),
          (''Cp'', Flt 1), (''Vng'', Flt 0), (''Vln'', Flt 1), (''Vcu'', Flt 1), (''Ve'', Flt 1),
          (''Iu'', Flt 1), (''Ist'', Flt 1), (''Iph'', Flt 1), (''Ig'', Flt 0), (''In'', Flt 0)]"
proof -
  from assms have p: "1 \<le> S self" "1 \<le> Pt self" "1 \<le> P self" "1 \<le> N self" "1 \<le> Su self"
    by (simp_all add: T07YY_validate_ok)
  have Ci: "T07YY_Ci self 0 = Inr 1"
    using p by (simp add: T07YY_Ci_def safe_div_ge1)
  have "1 \<le> Su self * N self" using p by (simp add: int_mult_ge1)
  then have gr: "1 \<le> real_of_int (Su self) * real_of_int (N self)"
    by (metis of_int_mult of_int_1_le_iff)
  have Vg: "T07YY_Vg self 0 = Inr 1"
    using gr p by (simp add: T07YY_Vg_def safe_div_ge1 Let_def algebra_simps)
  have Cu: "T07YY_Cu self 1 = Inr 1"
    using p by (simp add: T07YY_Cu_def safe_div_ge1 Let_def)
  have Cg: "T07YY_Cg self 1 = Inr 1"
    using p by (simp add: T07YY_Cg_def safe_div_ge1)
  have Cs: "T07YY_Cs self 1 = Inr 1"
    using p by (simp add: T07YY_Cs_def safe_div_ge1 Let_def)
  have Cp: "T07YY_Cp self 1 = Inr 1"
    using p by (simp add: T07YY_Cp_def safe_div_ge1 Let_def)
  have Vng: "T07YY_Vng self 1 G = Inr 0"
    by (simp add: T07YY_Vng_def safe_div_def)
  have Vcu: "T07YY_Vcu self 1 1 1 = Inr 1"
    by (simp add: T07YY_Vcu_def safe_div_def)
  have In: "T07YY_In self 0 G = Inr 0"
    using p by (simp add: T07YY_In_def safe_div_ge1)
  show ?thesis
    by (simp add: T07YY_row_def Ci Vg Cu Cg Cs Cp Vng Vcu In T07YY_Vln_def T07YY_Ve_def
        T07YY_Iu_def T07YY_Ist_def T07YY_Iph_def T07YY_Ig_def)
qed

lemma T03_validate_ok:
  "T03_validate self = Inr () \<longleftrightarrow> 1 \<le> S self \<and> 1 \<le> Pt self \<and> 1 \<le> Pa self"
  by (auto simp: T03_validate_def)

lemma T03_row_0:
  assumes "T03_validate self = Inr ()"
  shows "T03_row self G 0 =
     Inr [(''G'', IntC G), (''n'', IntC 0), (''Cu(fixed)'', Flt (Cu_fixed self)),
          (''Cg'', Flt 1), (''Cs'', Flt 1), (''Cp'', Flt 1), (''Vng'', Flt 0), (''Vln'', Flt 1),
          (''Vcu'', Flt 1), (''Iu'', Flt (py_round (Cu_fixed self) 6)), (''Iy'', Flt 1),
          (''Iph'', Flt 1), (''Ig'', Flt 0), (''In'', Flt 0)]"
proof -
  from assms have p: "1 \<le> S self" "1 \<le> Pt self" "1 \<le> Pa self"
    by (simp_all add: T03_validate_ok)
  have Cg: "T03_Cg self 0 = Inr 1"
    using p by (simp add: T03_Cg_def safe_div_ge1)
  have Cs: "T03_Cs self 1 = Inr 1"
    using p by (simp add: T03_Cs_def safe_div_ge1 Let_def)
  have Cp: "T03_Cp self 1 = Inr 1"
    using p by (simp add: T03_Cp_def safe_div_ge1 Let_def)
  have Vng: "T03_Vng self 1 G = Inr 0"
    by (simp add: T03_Vng_def safe_div_def)
  have Vcu: "T03_Vcu self 1 1 1 = Inr 1"
    by (simp add: T03_Vcu_def safe_div_def)
  have In: "T03_In self 0 G = Inr 0"
    using p by (simp add: T03_In_def safe_div_ge1)
  show ?thesis
    using p by (simp add: T03_row_def Cg Cs Cp Vng Vcu In T03_Vln_def T03_Iu_def T03_Iy_def
        T03_Iph_def T03_Ig_def)
qed

lemma truediv_ok: "den \<noteq> 0 \<Longrightarrow> truediv num den = Inr (num / den)"
  by (simp add: truediv_def)

lemma T08_check_ok:
  "T08_check_parameters self = Inr () \<longleftrightarrow>
     1 \<le> S self \<and> 1 \<le> St self \<and> 1 \<le> Pt self \<and> 1 \<le> P self \<and> 1 \<le> N self \<and> 1 \<le> Su self
     \<and> S self \<noteq> St self"
  by (auto simp: T08_check_parameters_def)

lemma T08_Cu_0:
  assumes "1 \<le> N self" "1 \<le> Su self"
  shows "T08_Cu self 0 = Inr 1"
proof -
  have "(N self - 0) * (Su self - 1) + N self = Su self * N self" by (simp add: algebra_simps)
  moreover have "Su self * N self \<noteq> 0" using assms by simp
  ultimately show ?thesis by (simp add: T08_Cu_def truediv_def)
qed

lemma T08_Chn_1:
  assumes "1 \<le> P self" "1 \<le> St self"
  shows "T08_Chn self 1 = Inr (real_of_int (Pt self) / real_of_int (St self))"
proof -
  have a: "(1 + real_of_int (P self) - 1) * real_of_int (St self - 1) + real_of_int (P self)
        = real_of_int (P self) * real_of_int (St self)"
    by (simp add: algebra_simps)
  have nz: "real_of_int (P self) * real_of_int (St self) \<noteq> 0" using assms by simp
  have "(1 + real_of_int (P self) - 1) * real_of_int (P self)
          / (real_of_int (P self) * real_of_int (St self))
        + real_of_int (Pt self - P self) / real_of_int (St self)
        = real_of_int (Pt self) / real_of_int (St self)"
    using assms by (simp add: field_simps)
  then show ?thesis
    unfolding T08_Chn_def a using nz assms by (simp add: truediv_def)
qed

lemma T08_Cp_ref:
  assumes "1 \<le> S self" "1 \<le> St self" "1 \<le> Pt self"
  shows "T08_Cp self (real_of_int (Pt self) / real_of_int (St self))
           = Inr (real_of_int (Pt self) / real_of_int (S self))"
proof -
  have den: "real_of_int (Pt self) / real_of_int (St self) * real_of_int (S self - St self)
               + real_of_int (Pt self)
             = real_of_int (Pt self) * real_of_int (S self) / real_of_int (St self)"
    using assms by (simp add: field_simps)
  have nz: "real_of_int (Pt self) * real_of_int (S self) / real_of_int (St self) \<noteq> 0"
    using assms by simp
  have "real_of_int (Pt self) / real_of_int (St self) * real_of_int (Pt self)
          / (real_of_int (Pt self) * real_of_int (S self) / real_of_int (St self))
        = real_of_int (Pt self) / real_of_int (S self)"
    using assms by (simp add: field_simps)
  then show ?thesis
    unfolding T08_Cp_def den using nz by (simp add: truediv_def)
qed

lemma T08_Cp0_ok:
  assumes "T08_check_parameters self = Inr ()"
  shows "T08_Cp0 self = Inr (real_of_int (Pt self) / real_of_int (S self))"
  using assms by (simp add: T08_Cp0_def T08_check_ok T08_Cu_0 T08_Chn_1 T08_Cp_ref)

lemma T08_row_0:
  assumes "T08_check_parameters self = Inr ()"
  shows "T08_row self G (real_of_int (Pt self) / real_of_int (S self)) 0 =
     Inr [(''G'', IntC G), (''f'', IntC 0), (''Cu'', Flt 1),
          (''Chn'', Flt (py_round (real_of_int (Pt self) / real_of_int (St self)) 6)),
          (''Cp'', Flt (py_round (real_of_int (Pt self) / real_of_int (S self)) 6)),
          (''Cp0'', Flt (py_round (real_of_int (Pt self) / real_of_int (S self)) 6)),
          (''Vln'', Flt 1),
          (''Vh'', Flt (py_round (real_of_int (St self) / real_of_int (S self)) 6)),
          (''Ih'', Flt 0), (''Vcu'', Flt 1), (''Ve'', Flt 1), (''Iu'', Flt 1)]"
proof -
  from assms have p: "1 \<le> S self" "1 \<le> St self" "1 \<le> Pt self" "1 \<le> P self" "1 \<le> N self"
      "1 \<le> Su self" "S self \<noteq> St self"
    by (simp_all add: T08_check_ok)
  let ?Cp = "real_of_int (Pt self) / real_of_int (S self)"
  let ?Chn = "real_of_int (Pt self) / real_of_int (St self)"
  let ?Vh = "real_of_int (St self) / real_of_int (S self)"
  have Vln: "T08_Vln ?Cp ?Cp G = Inr 1"
    using p by (simp add: T08_Vln_def truediv_def)
  have Vh: "T08_Vh ?Cp ?Chn = Inr ?Vh"
    using p by (simp add: T08_Vh_def truediv_def)
  have Ih: "T08_Ih self 1 ?Vh = Inr 0"
    using p by (simp add: T08_Ih_def truediv_def)
  have den: "real_of_int (P self) + real_of_int (St self - 1) * (1 + real_of_int (P self) - 1)
             = real_of_int (P self) * real_of_int (St self)"
    by (simp add: algebra_simps)
  have Vcu: "T08_Vcu self 1 ?Vh 1 = Inr 1"
    unfolding T08_Vcu_def den using p by (simp add: truediv_def)
  have Ve: "T08_Ve self 1 0 = Inr 1"
    using p by (simp add: T08_Ve_def truediv_def)
  show ?thesis
    using p by (simp add: T08_row_def T08_Cu_0 T08_Chn_1 T08_Cp_ref Vln Vh Ih Vcu Ve T08_Iu_def)
qed

lemma T06_validate_ok:
  "T06_validate self = Inr () \<longleftrightarrow>
     1 \<le> S self \<and> 1 \<le> St self \<and> 1 \<le> Pt self \<and> 1 \<le> Pa self \<and> St self < S self"
  by (auto simp: T06_validate_def)

lemma T06_Chn_0:
  assumes "1 \<le> Pa self" "1 \<le> St self"
  shows "T06_Chn self 0 = Inr (real_of_int (Pt self) / real_of_int (St self))"
proof -
  have a: "(Pa self - 0) * (St self - 1) + Pa self = Pa self * St self"
    by (simp add: algebra_simps)
  have nz: "real_of_int (Pa self * St self) \<noteq> 0" using assms by simp
  have "real_of_int ((Pa self - 0) * Pa self) / real_of_int (Pa self * St self)
        + real_of_int (Pt self - Pa self) / real_of_int (St self)
        = real_of_int (Pt self) / real_of_int (St self)"
    using assms by (simp add: field_simps)
  then show ?thesis
    unfolding T06_Chn_def Let_def a using nz assms by (simp add: truediv_def)
qed

lemma T06_Cp_ref:
  assumes "1 \<le> S self" "1 \<le> St self" "1 \<le> Pt self"
  shows "T06_Cp self (real_of_int (Pt self) / real_of_int (St self))
           = Inr (real_of_int (Pt self) / real_of_int (S self))"
proof -
  have den: "real_of_int (Pt self) / real_of_int (St self) * real_of_int (S self - St self)
               + real_of_int (Pt self)
             = real_of_int (Pt self) * real_of_int (S self) / real_of_int (St self)"
    using assms by (simp add: field_simps)
  have nz: "real_of_int (Pt self) * real_of_int (S self) / real_of_int (St self) \<noteq> 0"
    using assms by simp
  have "real_of_int (Pt self) / real_of_int (St self) * real_of_int (Pt self)
          / (real_of_int (Pt self) * real_of_int (S self) / real_of_int (St self))
        = real_of_int (Pt self) / real_of_int (S self)"
    using assms by (simp add: field_simps)
  then show ?thesis
    unfolding T06_Cp_def Let_def den using nz by (simp add: truediv_def)
qed

lemma T06_row_0:
  assumes "T06_validate self = Inr ()"
  shows "T06_row self G (real_of_int (Pt self) / real_of_int (St self))
           (real_of_int (Pt self) / real_of_int (S self)) (Idx 0) =
     Inr [(''n'', IntC 0), (''Cu(=1)'', Flt 1),
          (''Chn'', Flt (py_round (real_of_int (Pt self) / real_of_int (St self)) 6)),
          (''Cp'', Flt (py_round (real_of_int (Pt self) / real_of_int (S self)) 6)),
          (''Cp0'', Flt (py_round (real_of_int (Pt self) / real_of_int (S self)) 6)),
          (''Vln'', Flt 1),
          (''Vhn'', Flt (py_round (real_of_int (St self) / real_of_int (S self)) 6)),
          (''Ih'', Flt 0), (''Vcu'', Flt 1), (''Iu(=1*Vcu)'', Flt 1)]"
proof -
  from assms have p: "1 \<le> S self" "1 \<le> St self" "1 \<le> Pt self" "1 \<le> Pa self" "St self < S self"
    by (simp_all add: T06_validate_ok)
  let ?Cp = "real_of_int (Pt self) / real_of_int (S self)"
  let ?Chn = "real_of_int (Pt self) / real_of_int (St self)"
  let ?Vh = "real_of_int (St self) / real_of_int (S self)"
  have Vln: "T06_Vln ?Cp ?Cp G = Inr 1"
    using p by (simp add: T06_Vln_def truediv_def)
  have Vh: "T06_Vhn ?Cp ?Chn = Inr ?Vh"
    using p by (simp add: T06_Vhn_def truediv_def)
  have Ih: "T06_Ih self 1 ?Vh = Inr 0"
    using p by (simp add: T06_Ih_def truediv_def)
  have den: "Pa self + (St self - 1) * (Pa self - 0) = Pa self * St self"
    by (simp add: algebra_simps)
  have Vcu: "T06_Vcu self 1 ?Vh 0 = Inr 1"
    unfolding T06_Vcu_def Let_def den using p by (simp add: truediv_def)
  show ?thesis
    using p by (simp add: T06_row_def T06_Chn_0 T06_Cp_ref Vln Vh Ih Vcu T06_Iu_def)
qed

lemma example_bank_valid:
  "T07Y_validate example_bank = Inr ()" "T07YY_validate example_bank = Inr ()"
  "T03_validate example_bank = Inr ()" "T08_check_parameters example_bank = Inr ()"
  "T06_validate example_bank = Inr ()"
  by (simp_all add: example_bank_def T07Y_validate_def T07YY_validate_def T03_validate_def
      T08_check_parameters_def T06_validate_def)

lemma py_round_vals: "py_round (3 / 2) 6 = 3 / 2" "py_round 2 6 = 2" "py_round (3 / 4) 6 = 3 / 4"
  by (simp_all add: py_round_def round_half_even_def Let_def)

section \<open>C1: the row at fault index 0\<close>




section \<open>C10: the grounding flag is checked first\<close>

lemma store_Inl [simp]: "store self (Inl e) = (Inl e, self)"
  by (simp add: store_def)

text \<open>
  C10. For each of the five models and every \<open>G\<close> other than 0 and 1, \<open>calcular\<close> raises
  \<open>ValueError\<close> whatever the object and the index sequence are (so before any row is
  computed), and the object, with its stored table \<open>df\<close>, is unchanged.
\<close>

theorem calcular_rejects_G:
  assumes "G \<noteq> 0" and "G \<noteq> 1"
  shows "T07Y_calcular self G f_values = (Inl ValueError, self) \<and>
         T07YY_calcular self G f_values = (Inl ValueError, self) \<and>
         T03_calcular self G f_values = (Inl ValueError, self) \<and>
         T08_calcular self G = (Inl ValueError, self) \<and>
         T06_calcular self G n_values = (Inl ValueError, self)"
  using assms
  by (simp add: T07Y_calcular_def T07Y_resultados_def T07YY_calcular_def T07YY_resultados_def
      T03_calcular_def T03_resultados_def T08_calcular_def T08_resultados_def
      T06_calcular_def T06_resultados_def G_ok_def)

theorem calcular_rejects_G_witness:
  "(2::int) \<noteq> 0 \<and> (2::int) \<noteq> 1 \<and>
   T07Y_calcular stored_bank 2 None = (Inl ValueError, stored_bank) \<and>
   T07YY_calcular stored_bank 2 (Some [0]) = (Inl ValueError, stored_bank) \<and>
   T03_calcular stored_bank 2 None = (Inl ValueError, stored_bank) \<and>
   T08_calcular stored_bank 2 = (Inl ValueError, stored_bank) \<and>
   T06_calcular stored_bank 2 (Some [Idx 0, SU]) = (Inl ValueError, stored_bank) \<and>
   df stored_bank = [(''f'', [IntC 0])]"
proof -
  have a: "T07Y_calcular stored_bank 2 None = (Inl ValueError, stored_bank)"
    using calcular_rejects_G [of 2 stored_bank None None] by simp
  have b: "T07YY_calcular stored_bank 2 (Some [0]) = (Inl ValueError, stored_bank) \<and>
           T03_calcular stored_bank 2 None = (Inl ValueError, stored_bank)"
    using calcular_rejects_G [of 2 stored_bank "Some [0]" None]
          calcular_rejects_G [of 2 stored_bank None None] by simp
  have c: "T08_calcular stored_bank 2 = (Inl ValueError, stored_bank) \<and>
           T06_calcular stored_bank 2 (Some [Idx 0, SU]) = (Inl ValueError, stored_bank)"
    using calcular_rejects_G [of 2 stored_bank None "Some [Idx 0, SU]"] by simp
  show ?thesis using a b c by (simp add: stored_bank_def)
qed


section \<open>C4: fault indices outside the domain\<close>

lemmas T07Y_defs = T07Y_row_def T07Y_Ci_def T07Y_Vg_def T07Y_Cu_def T07Y_Cg_def T07Y_Cs_def
  T07Y_Cp_def T07Y_Vng_def T07Y_Vln_def T07Y_Vcu_def T07Y_Ve_def T07Y_Iu_def T07Y_Ist_def
  T07Y_Iph_def T07Y_Ig_def T07Y_In_def

lemmas rounding = py_round_def round_half_even_def Let_def

lemma for_each_fails: "x \<in> set xs \<Longrightarrow> isl (body x) \<Longrightarrow> isl (for_each body xs)"
proof (induction xs)
  case Nil
  then show ?case by simp
next
  case (Cons y ys)
  show ?case
  proof (cases "body y")
    case (Inl e)
    then show ?thesis by simp
  next
    case (Inr r)
    with Cons have "isl (for_each body ys) \<or> x = y" by auto
    with Inr Cons.prems show ?thesis by (cases "for_each body ys") auto
  qed
qed

lemma store_fails: "isl res \<Longrightarrow> \<exists>e. store self res = (Inl e, self)"
  by (cases res) simp_all

lemma T03_row_out_of_range: "n < 0 \<or> Pa self < n \<Longrightarrow> T03_row self G n = Inl ValueError"
  by (simp add: T03_row_def)

lemma T06_row_out_of_range:
  "n < 0 \<or> Pa self < n \<Longrightarrow> T06_row self G Chn0 Cp0 (Idx n) = Inl ValueError"
  by (simp add: T06_row_def)

lemma T03_sweep_out_of_range:
  assumes "n < 0 \<or> Pa self < n" and "n \<in> set ns"
  shows "\<exists>e. T03_calcular self G (Some ns) = (Inl e, self)"
proof -
  have "isl (for_each (T03_row self G) ns)"
    using assms by (intro for_each_fails [of n]) (simp_all add: T03_row_out_of_range)
  then have "isl (T03_resultados self G (Some ns))"
    by (simp add: T03_resultados_def)
  then show ?thesis unfolding T03_calcular_def by (rule store_fails)
qed

lemma T06_sweep_out_of_range:
  assumes "n < 0 \<or> Pa self < n" and "Idx n \<in> set ns"
  shows "\<exists>e. T06_calcular self G (Some ns) = (Inl e, self)"
proof -
  have "isl (for_each (T06_row self G Chn0 Cp0) ns)" for Chn0 Cp0
    using assms by (intro for_each_fails [of "Idx n"]) (simp_all add: T06_row_out_of_range)
  then have "isl (T06_resultados self G (Some ns))"
    by (cases "T06_Chn self 0"; cases "T06_Cp self (projr (T06_Chn self 0))")
       (simp_all add: T06_resultados_def)
  then show ?thesis unfolding T06_calcular_def by (rule store_fails)
qed

lemma T06_reference_ok:
  assumes "T06_validate self = Inr ()"
  shows "T06_Chn self 0 = Inr (real_of_int (Pt self) / real_of_int (St self))"
    and "T06_Cp self (real_of_int (Pt self) / real_of_int (St self))
           = Inr (real_of_int (Pt self) / real_of_int (S self))"
  using assms by (simp_all add: T06_validate_ok T06_Chn_0 T06_Cp_ref)




section \<open>C3: the fully collapsed branch\<close>

lemma T03_Cg_zero:
  assumes "1 \<le> Pa self" and "T03_Cg self n = Inr 0"
  shows "n = Pa self"
  using assms by (auto simp: T03_Cg_def safe_div_def split: if_splits)





section \<open>C6: the sentinel row of the minimal H-bridge model\<close>

lemmas T06_defs = T06_row_def T06_Chn_def T06_Cp_def T06_Vln_def T06_Vhn_def T06_Ih_def
  T06_Vcu_def T06_Iu_def

lemma t06_rows_grounded:
  "T06_resultados t06_bank 0 (Some [Idx 0, Idx 1, Idx 2, Idx 3, Idx 4, Idx 5, Idx 6, Idx 7, SU]) =
   Inr [[(''n'', IntC 0), (''Cu(=1)'', Flt 1), (''Chn'', Flt 5), (''Cp'', Flt 3),
         (''Cp0'', Flt 3), (''Vln'', Flt 1), (''Vhn'', Flt 0.6), (''Ih'', Flt 0),
         (''Vcu'', Flt 1), (''Iu(=1*Vcu)'', Flt 1)],
        [(''n'', IntC 1), (''Cu(=1)'', Flt 1), (''Chn'', Flt 4.878788), (''Cp'', Flt 2.955936),
         (''Cp0'', Flt 3), (''Vln'', Flt 1), (''Vhn'', Flt 0.605875), (''Ih'', Flt 0.011424),
         (''Vcu'', Flt 1.101591), (''Iu(=1*Vcu)'', Flt 1.101591)],
        [(''n'', IntC 2), (''Cu(=1)'', Flt 1), (''Chn'', Flt 4.733333), (''Cp'', Flt 2.901907),
         (''Cp0'', Flt 3), (''Vln'', Flt 1), (''Vhn'', Flt 0.613079), (''Ih'', Flt 0.025431),
         (''Vcu'', Flt 1.226158), (''Iu(=1*Vcu)'', Flt 1.226158)],
        [(''n'', IntC 3), (''Cu(=1)'', Flt 1), (''Chn'', Flt 4.555556), (''Cp'', Flt 2.834101),
         (''Cp0'', Flt 3), (''Vln'', Flt 1), (''Vhn'', Flt 0.62212), (''Ih'', Flt 0.043011),
         (''Vcu'', Flt 1.382488), (''Iu(=1*Vcu)'', Flt 1.382488)],
        [(''n'', IntC 4), (''Cu(=1)'', Flt 1), (''Chn'', Flt 4.333333), (''Cp'', Flt 2.746479),
         (''Cp0'', Flt 3), (''Vln'', Flt 1), (''Vhn'', Flt 0.633803), (''Ih'', Flt 0.065728),
         (''Vcu'', Flt 1.584507), (''Iu(=1*Vcu)'', Flt 1.584507)],
        [(''n'', IntC 5), (''Cu(=1)'', Flt 1), (''Chn'', Flt 4.047619), (''Cp'', Flt 2.628866),
         (''Cp0'', Flt 3), (''Vln'', Flt 1), (''Vhn'', Flt 0.649485), (''Ih'', Flt 0.09622),
         (''Vcu'', Flt 1.85567), (''Iu(=1*Vcu)'', Flt 1.85567)],
        [(''n'', IntC 6), (''Cu(=1)'', Flt 1), (''Chn'', Flt 3.666667), (''Cp'', Flt 2.462687),
         (''Cp0'', Flt 3), (''Vln'', Flt 1), (''Vhn'', Flt 0.671642), (''Ih'', Flt 0.139303),
         (''Vcu'', Flt 2.238806), (''Iu(=1*Vcu)'', Flt 2.238806)],
        [(''n'', IntC 7), (''Cu(=1)'', Flt 1), (''Chn'', Flt 3.133333), (''Cp'', Flt 2.210031),
         (''Cp0'', Flt 3), (''Vln'', Flt 1), (''Vhn'', Flt 0.705329), (''Ih'', Flt 0.204807),
         (''Vcu'', Flt 2.821317), (''Iu(=1*Vcu)'', Flt 2.821317)],
        [(''n'', Txt ''SU''), (''Cu(=1)'', Flt 1), (''Chn'', Flt 5), (''Cp'', Flt 3),
         (''Cp0'', Flt 3), (''Vln'', Flt 1), (''Vhn'', Flt 0.6), (''Ih'', Flt 0),
         (''Vcu'', Txt ''SC''), (''Iu(=1*Vcu)'', Txt ''SC'')]]"
  by (simp add: T06_resultados_def G_ok_def T06_defs t06_bank_def truediv_def rounding)

lemma t06_rows_ungrounded:
  "T06_resultados t06_bank 1 (Some [Idx 0, Idx 1, Idx 2, Idx 3, Idx 4, Idx 5, Idx 6, Idx 7, SU]) =
   Inr [[(''n'', IntC 0), (''Cu(=1)'', Flt 1), (''Chn'', Flt 5), (''Cp'', Flt 3),
         (''Cp0'', Flt 3), (''Vln'', Flt 1), (''Vhn'', Flt 0.6), (''Ih'', Flt 0),
         (''Vcu'', Flt 1), (''Iu(=1*Vcu)'', Flt 1)],
        [(''n'', IntC 1), (''Cu(=1)'', Flt 1), (''Chn'', Flt 4.878788), (''Cp'', Flt 2.955936),
         (''Cp0'', Flt 3), (''Vln'', Flt 1.00492), (''Vhn'', Flt 0.605875), (''Ih'', Flt 0.01148),
         (''Vcu'', Flt 1.107011), (''Iu(=1*Vcu)'', Flt 1.107011)],
        [(''n'', IntC 2), (''Cu(=1)'', Flt 1), (''Chn'', Flt 4.733333), (''Cp'', Flt 2.901907),
         (''Cp0'', Flt 3), (''Vln'', Flt 1.011019), (''Vhn'', Flt 0.613079), (''Ih'', Flt 0.025712),
         (''Vcu'', Flt 1.239669), (''Iu(=1*Vcu)'', Flt 1.239669)],
        [(''n'', IntC 3), (''Cu(=1)'', Flt 1), (''Chn'', Flt 4.555556), (''Cp'', Flt 2.834101),
         (''Cp0'', Flt 3), (''Vln'', Flt 1.018779), (''Vhn'', Flt 0.62212), (''Ih'', Flt 0.043818),
         (''Vcu'', Flt 1.408451), (''Iu(=1*Vcu)'', Flt 1.408451)],
        [(''n'', IntC 4), (''Cu(=1)'', Flt 1), (''Chn'', Flt 4.333333), (''Cp'', Flt 2.746479),
         (''Cp0'', Flt 3), (''Vln'', Flt 1.028986), (''Vhn'', Flt 0.633803), (''Ih'', Flt 0.067633),
         (''Vcu'', Flt 1.630435), (''Iu(=1*Vcu)'', Flt 1.630435)],
        [(''n'', IntC 5), (''Cu(=1)'', Flt 1), (''Chn'', Flt 4.047619), (''Cp'', Flt 2.628866),
         (''Cp0'', Flt 3), (''Vln'', Flt 1.043011), (''Vhn'', Flt 0.649485), (''Ih'', Flt 0.100358),
         (''Vcu'', Flt 1.935484), (''Iu(=1*Vcu)'', Flt 1.935484)],
        [(''n'', IntC 6), (''Cu(=1)'', Flt 1), (''Chn'', Flt 3.666667), (''Cp'', Flt 2.462687),
         (''Cp0'', Flt 3), (''Vln'', Flt 1.063492), (''Vhn'', Flt 0.671642), (''Ih'', Flt 0.148148),
         (''Vcu'', Flt 2.380952), (''Iu(=1*Vcu)'', Flt 2.380952)],
        [(''n'', IntC 7), (''Cu(=1)'', Flt 1), (''Chn'', Flt 3.133333), (''Cp'', Flt 2.210031),
         (''Cp0'', Flt 3), (''Vln'', Flt 1.09622), (''Vhn'', Flt 0.705329), (''Ih'', Flt 0.224513),
         (''Vcu'', Flt 3.092784), (''Iu(=1*Vcu)'', Flt 3.092784)],
        [(''n'', Txt ''SU''), (''Cu(=1)'', Flt 1), (''Chn'', Flt 5), (''Cp'', Flt 3),
         (''Cp0'', Flt 3), (''Vln'', Flt 1), (''Vhn'', Flt 0.6), (''Ih'', Flt 0),
         (''Vcu'', Txt ''SC''), (''Iu(=1*Vcu)'', Txt ''SC'')]]"
  by (simp add: T06_resultados_def G_ok_def T06_defs t06_bank_def truediv_def rounding)


text \<open>
  C6. For \<open>S=5, St=3, Pt=15, Pa=8\<close> the sweep over \<open>n = 0..7\<close> followed by \<open>"SU"\<close> raises
  nothing, for either grounding: it stores and returns a table of exactly nine rows, whose
  last row is the sentinel row, with the marker \<open>"SC"\<close> in place of a number under \<open>Vcu\<close>
  and under \<open>Iu\<close>; the eight rows before it are numeric.
\<close>

theorem sentinel_sweep:
  "T06_validate t06_bank = Inr () \<and>
   (\<exists>fr. T06_calcular t06_bank 0
            (Some [Idx 0, Idx 1, Idx 2, Idx 3, Idx 4, Idx 5, Idx 6, Idx 7, SU])
           = (Inr fr, t06_bank\<lparr>df := fr\<rparr>) \<and>
         nrows fr = 9 \<and>
         column fr ''n'' =
           [IntC 0, IntC 1, IntC 2, IntC 3, IntC 4, IntC 5, IntC 6, IntC 7, Txt ''SU''] \<and>
         column fr ''Vcu'' =
           [Flt 1, Flt 1.101591, Flt 1.226158, Flt 1.382488, Flt 1.584507, Flt 1.85567,
            Flt 2.238806, Flt 2.821317, Txt ''SC''] \<and>
         column fr ''Iu(=1*Vcu)'' = column fr ''Vcu'') \<and>
   (\<exists>fr. T06_calcular t06_bank 1
            (Some [Idx 0, Idx 1, Idx 2, Idx 3, Idx 4, Idx 5, Idx 6, Idx 7, SU])
           = (Inr fr, t06_bank\<lparr>df := fr\<rparr>) \<and>
         nrows fr = 9 \<and>
         column fr ''n'' =
           [IntC 0, IntC 1, IntC 2, IntC 3, IntC 4, IntC 5, IntC 6, IntC 7, Txt ''SU''] \<and>
         column fr ''Vcu'' =
           [Flt 1, Flt 1.107011, Flt 1.239669, Flt 1.408451, Flt 1.630435, Flt 1.935484,
            Flt 2.380952, Flt 3.092784, Txt ''SC''] \<and>
         column fr ''Iu(=1*Vcu)'' = column fr ''Vcu'')"
proof (intro conjI)
  show "T06_validate t06_bank = Inr ()"
    by (simp add: T06_validate_def t06_bank_def)
  show "\<exists>fr. T06_calcular t06_bank 0
            (Some [Idx 0, Idx 1, Idx 2, Idx 3, Idx 4, Idx 5, Idx 6, Idx 7, SU])
           = (Inr fr, t06_bank\<lparr>df := fr\<rparr>) \<and>
         nrows fr = 9 \<and>
         column fr ''n'' =
           [IntC 0, IntC 1, IntC 2, IntC 3, IntC 4, IntC 5, IntC 6, IntC 7, Txt ''SU''] \<and>
         column fr ''Vcu'' =
           [Flt 1, Flt 1.101591, Flt 1.226158, Flt 1.382488, Flt 1.584507, Flt 1.85567,
            Flt 2.238806, Flt 2.821317, Txt ''SC''] \<and>
         column fr ''Iu(=1*Vcu)'' = column fr ''Vcu''"
    unfolding T06_calcular_def t06_rows_grounded
    by (simp add: store_def DataFrame_def nrows_def column_def cell_of_def)
  show "\<exists>fr. T06_calcular t06_bank 1
            (Some [Idx 0, Idx 1, Idx 2, Idx 3, Idx 4, Idx 5, Idx 6, Idx 7, SU])
           = (Inr fr, t06_bank\<lparr>df := fr\<rparr>) \<and>
         nrows fr = 9 \<and>
         column fr ''n'' =
           [IntC 0, IntC 1, IntC 2, IntC 3, IntC 4, IntC 5, IntC 6, IntC 7, Txt ''SU''] \<and>
         column fr ''Vcu'' =
           [Flt 1, Flt 1.107011, Flt 1.239669, Flt 1.408451, Flt 1.630435, Flt 1.935484,
            Flt 2.380952, Flt 3.092784, Txt ''SC''] \<and>
         column fr ''Iu(=1*Vcu)'' = column fr ''Vcu''"
    unfolding T06_calcular_def t06_rows_ungrounded
    by (simp add: store_def DataFrame_def nrows_def column_def cell_of_def)
qed

section \<open>C5: the default sweep\<close>

lemma ebind_eq_Inr: "ebind m k = Inr r \<longleftrightarrow> (\<exists>v. m = Inr v \<and> k v = Inr r)"
  by (cases m) simp_all

lemma for_each_Inr_map:
  assumes "for_each body xs = Inr rows" and "\<And>x r. body x = Inr r \<Longrightarrow> g r = h x"
  shows "map g rows = map h xs"
  using assms(1)
proof (induction xs arbitrary: rows)
  case Nil
  then show ?case by simp
next
  case (Cons x xs)
  then obtain r rs where r: "body x = Inr r" and rs: "for_each body xs = Inr rs"
    and rows: "rows = r # rs"
    by (auto simp: ebind_eq_Inr)
  from Cons.IH [OF rs] assms(2) [OF r] rows show ?case by simp
qed

lemma map_of_keyed: "k \<in> set ks \<Longrightarrow> map_of (map (\<lambda>k'. (k', f k')) ks) k = Some (f k)"
  by (induction ks) auto

lemma column_DataFrame:
  assumes "\<And>r. r \<in> set rows \<Longrightarrow> k \<in> set (map fst r)"
  shows "column (DataFrame rows) k = map (\<lambda>r. cell_of r k) rows"
proof (cases rows)
  case Nil
  then show ?thesis by (simp add: column_def DataFrame_def)
next
  case (Cons r rs)
  then have "k \<in> set (map fst r)" using assms by simp
  then show ?thesis
    unfolding column_def DataFrame_def Cons by (simp only: list.case map_of_keyed option.case)
qed

lemma nrows_DataFrame:
  assumes "\<And>r. r \<in> set rows \<Longrightarrow> r \<noteq> []"
  shows "nrows (DataFrame rows) = length rows"
proof (cases rows)
  case Nil
  then show ?thesis by (simp add: nrows_def DataFrame_def)
next
  case (Cons r rs)
  then have "r \<noteq> []" using assms by simp
  then show ?thesis
    unfolding Cons by (cases r) (simp_all add: nrows_def DataFrame_def)
qed

lemma T07Y_row_f:
  "T07Y_row self G f = Inr r \<Longrightarrow> cell_of r ''f'' = IntC f \<and> ''f'' \<in> set (map fst r)"
  by (auto simp: T07Y_row_def ebind_eq_Inr Let_def cell_of_def)

lemma T07YY_row_f:
  "T07YY_row self G f = Inr r \<Longrightarrow> cell_of r ''f'' = IntC f \<and> ''f'' \<in> set (map fst r)"
  by (auto simp: T07YY_row_def ebind_eq_Inr Let_def cell_of_def)

lemma T08_row_f:
  "T08_row self G Cp0 f = Inr r \<Longrightarrow> cell_of r ''f'' = IntC f \<and> ''f'' \<in> set (map fst r)"
  by (auto simp: T08_row_def ebind_eq_Inr Let_def cell_of_def)

lemma T03_row_n:
  "T03_row self G n = Inr r \<Longrightarrow> cell_of r ''n'' = IntC n \<and> ''n'' \<in> set (map fst r)"
  by (auto simp: T03_row_def ebind_eq_Inr Let_def cell_of_def split: if_splits)

lemma T06_row_n:
  "T06_row self G Chn0 Cp0 (Idx n) = Inr r \<Longrightarrow>
     cell_of r ''n'' = IntC n \<and> ''n'' \<in> set (map fst r)"
  by (auto simp: T06_row_def ebind_eq_Inr Let_def cell_of_def split: if_splits)

lemma for_each_Inr_all:
  assumes "for_each body xs = Inr rows" and "\<And>x r. body x = Inr r \<Longrightarrow> Q r" and "r \<in> set rows"
  shows "Q r"
  using assms(1,3)
proof (induction xs arbitrary: rows)
  case Nil
  then show ?case by simp
next
  case (Cons x xs)
  then obtain r' rs where r': "body x = Inr r'" and rs: "for_each body xs = Inr rs"
    and rows: "rows = r' # rs"
    by (auto simp: ebind_eq_Inr)
  show ?case
  proof (cases "r = r'")
    case True
    with assms(2) [OF r'] show ?thesis by simp
  next
    case False
    with Cons.prems rows have "r \<in> set rs" by simp
    with Cons.IH [OF rs] show ?thesis .
  qed
qed

text \<open>What a sweep that returned a table stored: one row per index, in the order of the indices.\<close>

lemma sweep_table:
  assumes "for_each body xs = Inr rows"
    and "\<And>x r. body x = Inr r \<Longrightarrow> cell_of r k = c x \<and> k \<in> set (map fst r)"
  shows "column (DataFrame rows) k = map c xs \<and> nrows (DataFrame rows) = length xs"
proof -
  have a: "map (\<lambda>r. cell_of r k) rows = map c xs"
    using assms(1) by (rule for_each_Inr_map) (use assms(2) in blast)
  have keys: "k \<in> set (map fst r)" if "r \<in> set rows" for r
    using assms(1) _ that by (rule for_each_Inr_all) (use assms(2) in blast)
  have ne: "r \<noteq> []" if "r \<in> set rows" for r
    using keys [OF that] by auto
  have len: "length rows = length xs"
    using arg_cong [OF a, of length] by simp
  show ?thesis
    using column_DataFrame [of rows k, OF keys] a nrows_DataFrame [OF ne] len by simp
qed


lemma fst_store: "fst (store self res) = Inr fr \<longleftrightarrow> (\<exists>rows. res = Inr rows \<and> fr = DataFrame rows)"
  by (cases res) (auto simp: store_def)

lemma length_default: "length [0 .. k - 1] = nat k"
  by simp

lemmas T07YY_defs = T07YY_row_def T07YY_Ci_def T07YY_Vg_def T07YY_Cu_def T07YY_Cg_def
  T07YY_Cs_def T07YY_Cp_def T07YY_Vng_def T07YY_Vln_def T07YY_Vcu_def T07YY_Ve_def T07YY_Iu_def
  T07YY_Ist_def T07YY_Iph_def T07YY_Ig_def T07YY_In_def

lemmas T03_defs = T03_row_def T03_Cg_def T03_Cs_def T03_Cp_def T03_Vng_def T03_Vln_def
  T03_Vcu_def T03_Iu_def T03_Iy_def T03_Iph_def T03_Ig_def T03_In_def

lemmas T08_defs = T08_row_def T08_Cp0_def T08_Cu_def T08_Chn_def T08_Cp_def T08_Vln_def
  T08_Vh_def T08_Ih_def T08_Vcu_def T08_Ve_def T08_Iu_def

text \<open>Bounds on the series and parallel recombination of a derated capacitance.\<close>

lemma series_bounds:
  fixes c k :: real
  assumes "0 < c" and "c \<le> 1" and "1 \<le> k"
  shows "1 \<le> c * (k - 1) + 1" and "c \<le> k * c / (c * (k - 1) + 1)"
    and "k * c / (c * (k - 1) + 1) \<le> 1"
proof -
  have nn: "0 \<le> c * (k - 1)" using assms by simp
  then show d: "1 \<le> c * (k - 1) + 1" by simp
  then have pos: "0 < c * (k - 1) + 1" by linarith
  have "c * (k - 1) \<le> 1 * (k - 1)"
    using assms by (intro mult_right_mono) simp_all
  then have le: "c * (k - 1) + 1 \<le> k" by simp
  have "c * (c * (k - 1) + 1) \<le> c * k"
    using le assms(1) by (intro mult_left_mono) simp_all
  then show "c \<le> k * c / (c * (k - 1) + 1)"
    using pos by (simp add: pos_le_divide_eq mult.commute)
  have "k * c \<le> c * (k - 1) + 1"
  proof -
    have "k * c - c * (k - 1) = c" by (simp add: algebra_simps)
    with assms(2) show ?thesis by linarith
  qed
  then show "k * c / (c * (k - 1) + 1) \<le> 1"
    using pos by (simp add: pos_divide_le_eq)
qed

lemma parallel_bounds:
  fixes u p :: real
  assumes "0 < u" and "u \<le> 1" and "1 \<le> p"
  shows "u \<le> (p - 1 + u) / p" and "(p - 1 + u) / p \<le> 1"
proof -
  have pos: "0 < p" using assms by linarith
  have "(p - 1) * u \<le> (p - 1) * 1"
    using assms by (intro mult_left_mono) simp_all
  then have "u * p \<le> p - 1 + u" by (simp add: algebra_simps)
  then show "u \<le> (p - 1 + u) / p" using pos by (simp add: pos_le_divide_eq)
  show "(p - 1 + u) / p \<le> 1" using pos assms by (simp add: pos_divide_le_eq)
qed


lemma T07Y_row_returns:
  assumes v: "T07Y_validate self = Inr ()" and PPt: "P self \<le> Pt self"
    and big: "N self \<le> 10 ^ 12" and f: "0 \<le> f" "f < N self"
  shows "\<exists>r. T07Y_row self G f = Inr r"
proof -
  from v have p: "1 \<le> S self" "1 \<le> Pt self" "1 \<le> P self" "1 \<le> N self" "1 \<le> Su self"
    by (simp_all add: T07Y_validate_ok)
  define n where "n = real_of_int (N self)"
  define Ci where "Ci = real_of_int (N self - f) / n"
  have n1: "1 \<le> n" and n12: "n \<le> 10 ^ 12"
    using p big unfolding n_def by (simp, metis of_int_le_iff of_int_numeral of_int_power)
  have num: "1 \<le> real_of_int (N self - f)" and num': "real_of_int (N self - f) \<le> n"
    using f unfolding n_def by simp_all
  have Ci_le: "Ci \<le> 1" unfolding Ci_def using num' n1 by (simp add: pos_divide_le_eq)
  have "1 / n \<le> Ci" unfolding Ci_def using num n1 by (simp add: divide_right_mono)
  moreover have "1 / 10 ^ 12 \<le> 1 / n" using n1 n12 by (simp add: frac_le)
  ultimately have Ci_ge: "1 / 10 ^ 12 \<le> Ci" by linarith
  then have Ci_pos: "0 < Ci" by (smt (verit) divide_pos_pos zero_less_power)
  have Ci: "T07Y_Ci self f = Inr Ci"
    using n1 unfolding T07Y_Ci_def Ci_def n_def by (simp add: safe_div_ge1)
  have "1 \<le> (Su self - 1) * (N self - f) + N self"
    using p f by (smt (verit) mult_nonneg_nonneg)
  then have "1 \<le> real_of_int ((Su self - 1) * (N self - f) + N self)"
    by (simp only: of_int_1_le_iff)
  then have Vg: "\<exists>Vg. T07Y_Vg self f = Inr Vg"
    unfolding T07Y_Vg_def Let_def by (simp only: safe_div_ge1) simp
  define k where "k = real_of_int (Su self)"
  have k1: "1 \<le> k" using p unfolding k_def by simp
  define Cu where "Cu = k * Ci / (Ci * (k - 1) + 1)"
  note sb = series_bounds [OF Ci_pos Ci_le k1]
  have Cu: "T07Y_Cu self Ci = Inr Cu"
    using sb(1) unfolding T07Y_Cu_def Let_def Cu_def k_def by (simp add: safe_div_ge1)
  have Cu_ge: "Ci \<le> Cu" and Cu_le: "Cu \<le> 1" using sb(2,3) unfolding Cu_def by simp_all
  have Cu_pos: "0 < Cu" using Ci_pos Cu_ge by linarith
  define pp where "pp = real_of_int (P self)"
  have pp1: "1 \<le> pp" using p unfolding pp_def by simp
  define Cg where "Cg = (pp - 1 + Cu) / pp"
  note pb = parallel_bounds [OF Cu_pos Cu_le pp1]
  have Cg: "T07Y_Cg self Cu = Inr Cg"
    using pp1 unfolding T07Y_Cg_def Cg_def pp_def by (simp add: safe_div_ge1)
  have Cg_ge: "Cu \<le> Cg" and Cg_le: "Cg \<le> 1" using pb unfolding Cg_def by simp_all
  have Cg_pos: "0 < Cg" using Cu_pos Cg_ge by linarith
  have Cg_big: "1 / 10 ^ 12 \<le> \<bar>Cg\<bar>" using Ci_ge Cu_ge Cg_ge by linarith
  define s where "s = real_of_int (S self)"
  have s1: "1 \<le> s" using p unfolding s_def by simp
  define Cs where "Cs = s * Cg / (Cg * (s - 1) + 1)"
  note sb2 = series_bounds [OF Cg_pos Cg_le s1]
  have Cs: "T07Y_Cs self Cg = Inr Cs"
    using sb2(1) unfolding T07Y_Cs_def Let_def Cs_def s_def by (simp add: safe_div_ge1)
  have Cs_pos: "0 < Cs" using sb2(2) Cg_pos unfolding Cs_def by linarith
  define pt where "pt = real_of_int (Pt self)"
  have pt1: "1 \<le> pt" using p unfolding pt_def by simp
  define Cp where "Cp = (Cs * pp + (pt - pp)) / pt"
  have Cp: "T07Y_Cp self Cs = Inr Cp"
    using pt1 unfolding T07Y_Cp_def Let_def Cp_def pp_def pt_def by (simp add: safe_div_ge1)
  have "pp \<le> pt" using PPt unfolding pp_def pt_def by simp
  moreover have "0 \<le> Cs * pp" using Cs_pos pp1 by simp
  ultimately have "0 \<le> Cs * pp + (pt - pp)" by linarith
  then have Cp_nn: "0 \<le> Cp" unfolding Cp_def using pt1 by simp
  then have Vng: "\<exists>Vng. T07Y_Vng self Cp G = Inr Vng"
    unfolding T07Y_Vng_def by (simp add: safe_div_ge1)
  have Vcu: "T07Y_Vcu self Vln Cs Cg = Inr (Vln * Cs / Cg)" for Vln
    unfolding T07Y_Vcu_def using Cg_big by (rule safe_div_ok)
  from Vg Vng show ?thesis
    by (auto simp: T07Y_row_def Ci Cu Cg Cs Cp Vcu Let_def)
qed

lemma T07YY_row_returns:
  assumes v: "T07YY_validate self = Inr ()" and PPt: "P self \<le> Pt self"
    and big: "N self \<le> 10 ^ 12" and f: "0 \<le> f" "f < N self"
  shows "\<exists>r. T07YY_row self G f = Inr r"
proof -
  from v have p: "1 \<le> S self" "1 \<le> Pt self" "1 \<le> P self" "1 \<le> N self" "1 \<le> Su self"
    by (simp_all add: T07YY_validate_ok)
  define n where "n = real_of_int (N self)"
  define Ci where "Ci = real_of_int (N self - f) / n"
  have n1: "1 \<le> n" and n12: "n \<le> 10 ^ 12"
    using p big unfolding n_def by (simp, metis of_int_le_iff of_int_numeral of_int_power)
  have num: "1 \<le> real_of_int (N self - f)" and num': "real_of_int (N self - f) \<le> n"
    using f unfolding n_def by simp_all
  have Ci_le: "Ci \<le> 1" unfolding Ci_def using num' n1 by (simp add: pos_divide_le_eq)
  have "1 / n \<le> Ci" unfolding Ci_def using num n1 by (simp add: divide_right_mono)
  moreover have "1 / 10 ^ 12 \<le> 1 / n" using n1 n12 by (simp add: frac_le)
  ultimately have Ci_ge: "1 / 10 ^ 12 \<le> Ci" by linarith
  then have Ci_pos: "0 < Ci" by (smt (verit) divide_pos_pos zero_less_power)
  have Ci: "T07YY_Ci self f = Inr Ci"
    using n1 unfolding T07YY_Ci_def Ci_def n_def by (simp add: safe_div_ge1)
  have "1 \<le> (Su self - 1) * (N self - f) + N self"
    using p f by (smt (verit) mult_nonneg_nonneg)
  then have "1 \<le> real_of_int ((Su self - 1) * (N self - f) + N self)"
    by (simp only: of_int_1_le_iff)
  then have Vg: "\<exists>Vg. T07YY_Vg self f = Inr Vg"
    unfolding T07YY_Vg_def Let_def by (simp only: safe_div_ge1) simp
  define k where "k = real_of_int (Su self)"
  have k1: "1 \<le> k" using p unfolding k_def by simp
  define Cu where "Cu = k * Ci / (Ci * (k - 1) + 1)"
  note sb = series_bounds [OF Ci_pos Ci_le k1]
  have Cu: "T07YY_Cu self Ci = Inr Cu"
    using sb(1) unfolding T07YY_Cu_def Let_def Cu_def k_def by (simp add: safe_div_ge1)
  have Cu_ge: "Ci \<le> Cu" and Cu_le: "Cu \<le> 1" using sb(2,3) unfolding Cu_def by simp_all
  have Cu_pos: "0 < Cu" using Ci_pos Cu_ge by linarith
  define pp where "pp = real_of_int (P self)"
  have pp1: "1 \<le> pp" using p unfolding pp_def by simp
  define Cg where "Cg = (pp - 1 + Cu) / pp"
  note pb = parallel_bounds [OF Cu_pos Cu_le pp1]
  have Cg: "T07YY_Cg self Cu = Inr Cg"
    using pp1 unfolding T07YY_Cg_def Cg_def pp_def by (simp add: safe_div_ge1)
  have Cg_ge: "Cu \<le> Cg" and Cg_le: "Cg \<le> 1" using pb unfolding Cg_def by simp_all
  have Cg_pos: "0 < Cg" using Cu_pos Cg_ge by linarith
  have Cg_big: "1 / 10 ^ 12 \<le> \<bar>Cg\<bar>" using Ci_ge Cu_ge Cg_ge by linarith
  define s where "s = real_of_int (S self)"
  have s1: "1 \<le> s" using p unfolding s_def by simp
  define Cs where "Cs = s * Cg / (Cg * (s - 1) + 1)"
  note sb2 = series_bounds [OF Cg_pos Cg_le s1]
  have Cs: "T07YY_Cs self Cg = Inr Cs"
    using sb2(1) unfolding T07YY_Cs_def Let_def Cs_def s_def by (simp add: safe_div_ge1)
  have Cs_pos: "0 < Cs" using sb2(2) Cg_pos unfolding Cs_def by linarith
  define pt where "pt = real_of_int (Pt self)"
  have pt1: "1 \<le> pt" using p unfolding pt_def by simp
  define Cp where "Cp = (Cs * pp + (pt - pp)) / pt"
  have Cp: "T07YY_Cp self Cs = Inr Cp"
    using pt1 unfolding T07YY_Cp_def Let_def Cp_def pp_def pt_def by (simp add: safe_div_ge1)
  have "pp \<le> pt" using PPt unfolding pp_def pt_def by simp
  moreover have "0 \<le> Cs * pp" using Cs_pos pp1 by simp
  ultimately have "0 \<le> Cs * pp + (pt - pp)" by linarith
  then have Cp_nn: "0 \<le> Cp" unfolding Cp_def using pt1 by simp
  then have Vng: "\<exists>Vng. T07YY_Vng self Cp G = Inr Vng"
    unfolding T07YY_Vng_def by (simp add: safe_div_ge1)
  have Vcu: "T07YY_Vcu self Vln Cs Cg = Inr (Vln * Cs / Cg)" for Vln
    unfolding T07YY_Vcu_def using Cg_big by (rule safe_div_ok)
  have In: "\<exists>In. T07YY_In self Vng G = Inr In" for Vng
    using pt1 unfolding T07YY_In_def Let_def pt_def by (simp add: safe_div_ge1)
  from Vg Vng obtain Vg' Vng' where "T07YY_Vg self f = Inr Vg'" "T07YY_Vng self Cp G = Inr Vng'"
    by blast
  moreover from In obtain In' where "T07YY_In self Vng' G = Inr In'" by blast
  ultimately show ?thesis
    by (simp add: T07YY_row_def Ci Cu Cg Cs Cp Vcu Let_def)
qed

lemma T03_row_returns:
  assumes v: "T03_validate self = Inr ()" and PaPt: "Pa self \<le> Pt self"
    and n: "0 \<le> n" "n \<le> Pa self"
  shows "\<exists>r. T03_row self G n = Inr r"
proof -
  from v have p: "1 \<le> S self" "1 \<le> Pt self" "1 \<le> Pa self"
    by (simp_all add: T03_validate_ok)
  define pa where "pa = real_of_int (Pa self)"
  define pt where "pt = real_of_int (Pt self)"
  define s where "s = real_of_int (S self)"
  have b: "1 \<le> pa" "1 \<le> pt" "1 \<le> s" "pa \<le> pt"
    using p PaPt unfolding pa_def pt_def s_def by simp_all
  define Cg where "Cg = real_of_int (Pa self - n) / pa"
  have Cg: "T03_Cg self n = Inr Cg"
    using b unfolding T03_Cg_def Cg_def pa_def by (simp add: safe_div_ge1)
  have Cg_nn: "0 \<le> Cg" unfolding Cg_def using n b by simp
  define Cs where "Cs = s * Cg / (Cg * (s - 1) + 1)"
  have d: "1 \<le> Cg * (s - 1) + 1" using Cg_nn b by simp
  have Cs: "T03_Cs self Cg = Inr Cs"
    using d unfolding T03_Cs_def Let_def Cs_def s_def by (simp add: safe_div_ge1)
  have Cs_nn: "0 \<le> Cs" unfolding Cs_def using Cg_nn b d by simp
  define Cp where "Cp = (Cs * pa + (pt - pa)) / pt"
  have Cp: "T03_Cp self Cs = Inr Cp"
    using b unfolding T03_Cp_def Let_def Cp_def pa_def pt_def by (simp add: safe_div_ge1)
  have "0 \<le> Cs * pa" using Cs_nn b by simp
  with b have "0 \<le> Cs * pa + (pt - pa)" by linarith
  then have Cp_nn: "0 \<le> Cp" unfolding Cp_def using b by simp
  then obtain Vng where Vng: "T03_Vng self Cp G = Inr Vng"
    unfolding T03_Vng_def by (simp add: safe_div_ge1)
  obtain Vcu where Vcu: "T03_Vcu self (T03_Vln Vng) Cs Cg = Inr Vcu"
    unfolding T03_Vcu_def safe_div_def by (cases "\<bar>Cg\<bar> < 1 / 10 ^ 12") simp_all
  obtain In where In: "T03_In self Vng G = Inr In"
    using b unfolding T03_In_def pt_def by (simp add: safe_div_ge1)
  show ?thesis
    using n by (simp add: T03_row_def Cg Cs Cp Vng Vcu In Let_def)
qed

lemma T06_row_returns:
  assumes v: "T06_validate self = Inr ()" and PaPt: "Pa self \<le> Pt self"
    and n: "0 \<le> n" "n < Pa self"
  shows "\<exists>r. T06_row self G (real_of_int (Pt self) / real_of_int (St self))
               (real_of_int (Pt self) / real_of_int (S self)) (Idx n) = Inr r"
proof -
  from v have p: "1 \<le> S self" "1 \<le> St self" "1 \<le> Pt self" "1 \<le> Pa self" "St self < S self"
    by (simp_all add: T06_validate_ok)
  define pt where "pt = real_of_int (Pt self)"
  define st where "st = real_of_int (St self)"
  define s where "s = real_of_int (S self)"
  have b: "1 \<le> pt" "1 \<le> st" "1 \<le> s" "st < s"
    using p unfolding pt_def st_def s_def by simp_all
  have num: "1 \<le> (Pa self - n) * Pa self"
    using n p by (intro int_mult_ge1) simp_all
  have den: "1 \<le> (Pa self - n) * (St self - 1) + Pa self"
    using n p by (smt (verit) mult_nonneg_nonneg)
  define t1 where "t1 = real_of_int ((Pa self - n) * Pa self)
                          / real_of_int ((Pa self - n) * (St self - 1) + Pa self)"
  have rnum: "1 \<le> real_of_int ((Pa self - n) * Pa self)"
    and rden: "1 \<le> real_of_int ((Pa self - n) * (St self - 1) + Pa self)"
    using num den by (simp_all only: of_int_1_le_iff)
  have t1_pos: "0 < t1" unfolding t1_def using rnum rden by (intro divide_pos_pos) linarith+
  define t2 where "t2 = real_of_int (Pt self - Pa self) / st"
  have t2_nn: "0 \<le> t2" unfolding t2_def using PaPt b by simp
  define Chn where "Chn = t1 + t2"
  have Chn_pos: "0 < Chn" unfolding Chn_def using t1_pos t2_nn by linarith
  have Chn: "T06_Chn self n = Inr Chn"
    unfolding T06_Chn_def Let_def Chn_def t1_def t2_def st_def
    using rden b(2) unfolding st_def by (simp add: truediv_def del: of_int_mult of_int_add of_int_diff)
  define dcp where "dcp = Chn * (s - st) + pt"
  have dcp_pos: "0 < dcp"
  proof -
    have "0 \<le> Chn * (s - st)" using Chn_pos b by simp
    then show ?thesis unfolding dcp_def using b by linarith
  qed
  define Cp where "Cp = Chn * pt / dcp"
  have Cp_pos: "0 < Cp" unfolding Cp_def using Chn_pos b dcp_pos by simp
  have Cp: "T06_Cp self Chn = Inr Cp"
    using dcp_pos unfolding T06_Cp_def Let_def Cp_def dcp_def s_def st_def pt_def
    by (simp add: truediv_def)
  have Cp0_pos: "0 < pt / s" using b by simp
  have ratio: "0 < Cp / (pt / s)" using Cp_pos Cp0_pos by (rule divide_pos_pos)
  have nz0: "pt / s \<noteq> 0" using Cp0_pos by linarith
  have nz1: "2 + Cp / (pt / s) \<noteq> 0" using ratio by linarith
  obtain Vln where Vln: "T06_Vln Cp (pt / s) G = Inr Vln"
    unfolding T06_Vln_def by (simp only: truediv_def nz0 nz1 if_False ebind_Inr)
  obtain Vhn where Vhn: "T06_Vhn Cp Chn = Inr Vhn"
    using Chn_pos unfolding T06_Vhn_def by (simp add: truediv_def)
  obtain Ih where Ih: "T06_Ih self Vln Vhn = Inr Ih"
    using p unfolding T06_Ih_def Let_def by (simp add: truediv_def)
  have "1 \<le> Pa self + (St self - 1) * (Pa self - n)"
    using n p by (smt (verit) mult_nonneg_nonneg)
  then have "real_of_int (Pa self + (St self - 1) * (Pa self - n)) \<noteq> 0"
    by (metis not_one_le_zero of_int_eq_0_iff)
  then obtain Vcu where Vcu: "T06_Vcu self Vln Vhn n = Inr Vcu"
    unfolding T06_Vcu_def Let_def by (simp only: truediv_def if_False)
  show ?thesis
    using n Chn Cp Vln Vhn Ih Vcu unfolding pt_def s_def
    by (simp add: T06_row_def Let_def)
qed


lemma T08_row_returns:
  assumes v: "T08_check_parameters self = Inr ()" and PPt: "P self \<le> Pt self"
    and StS: "St self < S self" and f: "0 \<le> f" "f < N self"
  shows "\<exists>r. T08_row self G (real_of_int (Pt self) / real_of_int (S self)) f = Inr r"
proof -
  from v have p: "1 \<le> S self" "1 \<le> St self" "1 \<le> Pt self" "1 \<le> P self" "1 \<le> N self"
      "1 \<le> Su self"
    by (simp_all add: T08_check_ok)
  define pt where "pt = real_of_int (Pt self)"
  define st where "st = real_of_int (St self)"
  define s where "s = real_of_int (S self)"
  define pp where "pp = real_of_int (P self)"
  have b: "1 \<le> pt" "1 \<le> st" "1 \<le> s" "st < s" "1 \<le> pp" "pp \<le> pt"
    using p StS PPt unfolding pt_def st_def s_def pp_def by simp_all
  have num: "1 \<le> Su self * (N self - f)"
    using f p by (intro int_mult_ge1) simp_all
  have den: "1 \<le> (N self - f) * (Su self - 1) + N self"
    using f p by (smt (verit) mult_nonneg_nonneg)
  have rnum: "1 \<le> real_of_int (Su self * (N self - f))"
    and rden: "1 \<le> real_of_int ((N self - f) * (Su self - 1) + N self)"
    using num den by (simp_all only: of_int_1_le_iff)
  define Cu where "Cu = real_of_int (Su self * (N self - f))
                          / real_of_int ((N self - f) * (Su self - 1) + N self)"
  have Cu_pos: "0 < Cu" unfolding Cu_def using rnum rden by (intro divide_pos_pos) linarith+
  have nzd: "real_of_int ((N self - f) * (Su self - 1) + N self) \<noteq> 0" using rden by linarith
  have Cu: "T08_Cu self f = Inr Cu"
    unfolding T08_Cu_def Cu_def by (simp only: truediv_def nzd if_False)
  define a where "a = Cu + pp - 1"
  have a_pos: "0 < a" unfolding a_def using Cu_pos b by linarith
  define d1 where "d1 = a * (st - 1) + pp"
  have d1_pos: "0 < d1"
  proof -
    have "0 \<le> a * (st - 1)" using a_pos b by simp
    then show ?thesis unfolding d1_def using b by linarith
  qed
  define Chn where "Chn = a * pp / d1 + (pt - pp) / st"
  have "0 < a * pp / d1" using a_pos b d1_pos by simp
  moreover have "0 \<le> (pt - pp) / st" using b by simp
  ultimately have Chn_pos: "0 < Chn" unfolding Chn_def by linarith
  have nz1: "d1 \<noteq> 0" and nz2: "st \<noteq> 0" using d1_pos b by linarith+
  have Chn: "T08_Chn self Cu = Inr Chn"
    using nz1 nz2 unfolding T08_Chn_def Chn_def d1_def a_def pp_def st_def pt_def
    by (simp add: truediv_def)
  define dcp where "dcp = Chn * (s - st) + pt"
  have dcp_pos: "0 < dcp"
  proof -
    have "0 \<le> Chn * (s - st)" using Chn_pos b by simp
    then show ?thesis unfolding dcp_def using b by linarith
  qed
  define Cp where "Cp = Chn * pt / dcp"
  have Cp_pos: "0 < Cp" unfolding Cp_def using Chn_pos b dcp_pos by simp
  have Cp: "T08_Cp self Chn = Inr Cp"
    using dcp_pos unfolding T08_Cp_def Cp_def dcp_def s_def st_def pt_def
    by (simp add: truediv_def)
  have Cp0_pos: "0 < pt / s" using b by simp
  have ratio: "0 < Cp / (pt / s)" using Cp_pos Cp0_pos by (rule divide_pos_pos)
  have nz0: "pt / s \<noteq> 0" using Cp0_pos by linarith
  have nz3: "2 + Cp / (pt / s) \<noteq> 0" using ratio by linarith
  obtain Vln where Vln: "T08_Vln Cp (pt / s) G = Inr Vln"
    unfolding T08_Vln_def by (simp only: truediv_def nz0 nz3 if_False ebind_Inr)
  obtain Vh where Vh: "T08_Vh Cp Chn = Inr Vh"
    using Chn_pos unfolding T08_Vh_def by (simp add: truediv_def)
  obtain Ih where Ih: "T08_Ih self Vln Vh = Inr Ih"
    using p StS unfolding T08_Ih_def by (simp add: truediv_def)
  define dv where "dv = pp + (st - 1) * (Cu + pp - 1)"
  have dv_pos: "0 < dv"
  proof -
    have "0 \<le> (st - 1) * (Cu + pp - 1)" using a_pos b unfolding a_def by simp
    then show ?thesis unfolding dv_def using b by linarith
  qed
  then have nz4: "dv \<noteq> 0" by linarith
  obtain Vcu where Vcu: "T08_Vcu self Vln Vh Cu = Inr Vcu"
    using nz4 unfolding T08_Vcu_def dv_def pp_def st_def by (simp add: truediv_def)
  have "1 \<le> Su self * (N self - f) + f" using num f by linarith
  then have nz5: "real_of_int (Su self * (N self - f) + f) \<noteq> 0"
    by (metis not_one_le_zero of_int_eq_0_iff)
  obtain Ve where Ve: "T08_Ve self Vcu f = Inr Ve"
    unfolding T08_Ve_def by (simp only: truediv_def nz5 if_False)
  show ?thesis
    using Cu Chn Cp Vln Vh Ih Vcu Ve unfolding pt_def s_def
    by (simp add: T08_row_def Let_def)
qed

lemma for_each_returns:
  "(\<And>x. x \<in> set xs \<Longrightarrow> \<exists>r. body x = Inr r) \<Longrightarrow> \<exists>rows. for_each body xs = Inr rows"
proof (induction xs)
  case Nil
  show ?case by simp
next
  case (Cons x xs)
  then obtain r rs where "body x = Inr r" "for_each body xs = Inr rs"
    by (metis list.set_intros)
  then show ?case by simp
qed


text \<open>The default sweeps of banks that respect \<open>P \<le> Pt\<close>, \<open>Pa \<le> Pt\<close> and \<open>St < S\<close> return a table.\<close>

lemma T07Y_default_returns:
  assumes "T07Y_validate self = Inr ()" and "G_ok G" and "P self \<le> Pt self"
    and "N self \<le> 10 ^ 12"
  shows "\<exists>fr. fst (T07Y_calcular self G None) = Inr fr"
proof -
  have "\<exists>rows. for_each (T07Y_row self G) [0 .. N self - 1] = Inr rows"
    using assms by (intro for_each_returns T07Y_row_returns) simp_all
  then show ?thesis
    using assms(2) by (auto simp: T07Y_calcular_def T07Y_resultados_def fst_store)
qed

lemma T07YY_default_returns:
  assumes "T07YY_validate self = Inr ()" and "G_ok G" and "P self \<le> Pt self"
    and "N self \<le> 10 ^ 12"
  shows "\<exists>fr. fst (T07YY_calcular self G None) = Inr fr"
proof -
  have "\<exists>rows. for_each (T07YY_row self G) [0 .. N self - 1] = Inr rows"
    using assms by (intro for_each_returns T07YY_row_returns) simp_all
  then show ?thesis
    using assms(2) by (auto simp: T07YY_calcular_def T07YY_resultados_def fst_store)
qed

lemma T08_default_returns:
  assumes "T08_check_parameters self = Inr ()" and "G_ok G" and "P self \<le> Pt self"
    and "St self < S self"
  shows "\<exists>fr. fst (T08_calcular self G) = Inr fr"
proof -
  have "\<exists>rows. for_each (T08_row self G (real_of_int (Pt self) / real_of_int (S self)))
                  [0 .. N self - 1] = Inr rows"
    using assms by (intro for_each_returns T08_row_returns) simp_all
  then show ?thesis
    using assms(2) T08_Cp0_ok [OF assms(1)]
    by (auto simp: T08_calcular_def T08_resultados_def fst_store)
qed

lemma T03_default_returns:
  assumes "T03_validate self = Inr ()" and "G_ok G" and "Pa self \<le> Pt self"
  shows "\<exists>fr. fst (T03_calcular self G None) = Inr fr"
proof -
  have "\<exists>rows. for_each (T03_row self G) [0 .. Pa self - 2 - 1] = Inr rows"
    using assms by (intro for_each_returns T03_row_returns) simp_all
  then show ?thesis
    using assms(2) by (auto simp: T03_calcular_def T03_resultados_def fst_store)
qed

lemma T06_default_returns:
  assumes "T06_validate self = Inr ()" and "G_ok G" and "Pa self \<le> Pt self"
  shows "\<exists>fr. compute_table06_ieee self G = Inr fr"
proof -
  have "\<exists>r. T06_row self G (real_of_int (Pt self) / real_of_int (St self))
               (real_of_int (Pt self) / real_of_int (S self)) x = Inr r"
    if "x \<in> set (map Idx [0 .. Pa self - 1])" for x
  proof -
    from that obtain n where "x = Idx n" "0 \<le> n" "n < Pa self" by auto
    with assms show ?thesis using T06_row_returns by blast
  qed
  then have "\<exists>rows. for_each (T06_row self G (real_of_int (Pt self) / real_of_int (St self))
               (real_of_int (Pt self) / real_of_int (S self))) (map Idx [0 .. Pa self - 1])
             = Inr rows"
    by (rule for_each_returns)
  then show ?thesis
    using assms(1,2) T06_reference_ok [OF assms(1)]
    by (auto simp: compute_table06_ieee_def compute_table06_n_values_def T06_calcular_def
        T06_resultados_def fst_store)
qed


lemma upto_vals:
  "[0 .. 0] = [0 :: int]" "[0 .. 1] = [0, 1 :: int]" "[0 .. 2] = [0, 1, 2 :: int]"
  "[0 .. 5] = [0, 1, 2, 3, 4, 5 :: int]"
  by (simp_all add: upto.simps)

lemma small_bank_accepted:
  "T07Y_validate small_bank = Inr ()" "T07YY_validate small_bank = Inr ()"
  "T08_check_parameters small_bank = Inr ()" "T03_validate small_bank = Inr ()"
  "T06_validate small_bank = Inr ()" "G_ok 1"
  "P small_bank \<le> Pt small_bank" "N small_bank \<le> 10 ^ 12" "St small_bank < S small_bank"
  "Pa small_bank \<le> Pt small_bank"
  by (simp_all add: T07Y_validate_def T07YY_validate_def T08_check_parameters_def
      T03_validate_def T06_validate_def G_ok_def small_bank_def)



section \<open>C9: the validator of the single wye with internal fuses\<close>

lemma py_int_of_int [simp]: "py_int (real_of_int k) = k"
  by (simp add: py_int_def)

lemma py_int_numeral [simp]: "py_int (numeral k) = numeral k" "py_int 0 = 0" "py_int 1 = 1"
  using py_int_of_int [of "numeral k"] py_int_of_int [of 0] py_int_of_int [of 1] by simp_all

lemma ebind_check:
  "ebind (check bad msg) k = (if bad then Inl (NominalDataError msg) else k ())"
  by (simp add: check_def)

lemma y_internal_nominal:
  "validate_nominal_data ''y_internal_fuses'' data = Inr () \<longleftrightarrow>
     (\<exists>s pt pa p. data ''S'' = Some s \<and> data ''Pt'' = Some pt \<and> data ''Pa'' = Some pa \<and>
        data ''P'' = Some p \<and> 1 \<le> py_int s \<and> 1 \<le> py_int pt \<and> py_int pa = py_int pt \<and>
        1 \<le> py_int p \<and> py_int pa mod py_int p = 0)"
  by (cases "data ''S''"; cases "data ''Pt''"; cases "data ''Pa''"; cases "data ''P''")
     (auto simp: validate_nominal_data_def require_key_def int_of_key_def getitem_def ebind_check
        check_def split: if_splits)

lemma y_internal_nominal_error:
  "validate_nominal_data ''y_internal_fuses'' data = Inr () \<or>
     (\<exists>msg. validate_nominal_data ''y_internal_fuses'' data = Inl (NominalDataError msg))"
  by (cases "data ''S''"; cases "data ''Pt''"; cases "data ''Pa''"; cases "data ''P''")
     (auto simp: validate_nominal_data_def require_key_def int_of_key_def getitem_def ebind_check
        check_def split: if_splits)


lemma y_internal_inputs:
  "validate_inputs ''y_internal_fuses'' data =
     (case validate_nominal_data ''y_internal_fuses'' data of
        Inl (NominalDataError msg) \<Rightarrow> Inr \<lparr>is_valid = False, errors = [message msg], warnings = []\<rparr>
      | Inl e \<Rightarrow> Inl e
      | Inr _ \<Rightarrow> Inr \<lparr>is_valid = True, errors = [], warnings = []\<rparr>)"
  by (simp add: validate_inputs_def)

lemma y_data_lookup:
  "y_data s pt pa p ''S'' = Some (real_of_int s)" "y_data s pt pa p ''Pt'' = Some (real_of_int pt)"
  "y_data s pt pa p ''Pa'' = Some (real_of_int pa)" "y_data s pt pa p ''P'' = Some (real_of_int p)"
  by (simp_all add: y_data_def)

lemma y_internal_total: "\<exists>res. validate_inputs ''y_internal_fuses'' data = Inr res"
  using y_internal_nominal_error [of data] by (auto simp: y_internal_inputs)

lemma y_internal_valid:
  assumes "validate_inputs ''y_internal_fuses'' data = Inr res"
  shows "is_valid res \<longleftrightarrow>
        (\<exists>s pt pa p. data ''S'' = Some s \<and> data ''Pt'' = Some pt \<and> data ''Pa'' = Some pa \<and>
           data ''P'' = Some p \<and> 1 \<le> py_int s \<and> 1 \<le> py_int pt \<and> py_int pa = py_int pt \<and>
           1 \<le> py_int p \<and> py_int pa mod py_int p = 0)"
proof -
  have "is_valid res \<longleftrightarrow> validate_nominal_data ''y_internal_fuses'' data = Inr ()"
    using assms y_internal_nominal_error [of data] by (auto simp: y_internal_inputs)
  then show ?thesis by (simp only: y_internal_nominal)
qed

lemma y_internal_errors:
  assumes "validate_inputs ''y_internal_fuses'' data = Inr res"
  shows "is_valid res \<longleftrightarrow> errors res = []"
  using assms y_internal_nominal_error [of data] by (auto simp: y_internal_inputs)

text \<open>
  C9. On a dict of numbers the validator of the single wye with internal fuses never
  raises: it returns a result, which is valid exactly when \<open>S\<close>, \<open>Pt\<close>, \<open>Pa\<close> and \<open>P\<close> are
  present with \<open>S \<ge> 1\<close>, \<open>Pt \<ge> 1\<close>, \<open>Pa = Pt\<close>, \<open>P \<ge> 1\<close> and \<open>Pa mod P = 0\<close> (so it accepts only
  if \<open>Pa = Pt\<close>, \<open>P \<ge> 1\<close> and \<open>Pa mod P = 0\<close>), and which carries an error message whenever it
  is not valid. It rejects \<open>Pa = 7, P = 2\<close> whatever \<open>S\<close> and \<open>Pt\<close> are, and accepts
  \<open>Pa = 6, P = 2\<close> (with \<open>Pt = 6\<close>, \<open>S = 4\<close>).
\<close>

theorem y_internal_validator:
  "(\<exists>res. validate_inputs ''y_internal_fuses'' data = Inr res \<and>
      (is_valid res \<longleftrightarrow>
         (\<exists>s pt pa p. data ''S'' = Some s \<and> data ''Pt'' = Some pt \<and> data ''Pa'' = Some pa \<and>
            data ''P'' = Some p \<and> 1 \<le> py_int s \<and> 1 \<le> py_int pt \<and> py_int pa = py_int pt \<and>
            1 \<le> py_int p \<and> py_int pa mod py_int p = 0)) \<and>
      (\<not> is_valid res \<longrightarrow> errors res \<noteq> [])) \<and>
   (\<exists>res. validate_inputs ''y_internal_fuses'' (y_data s pt 7 2) = Inr res \<and>
      \<not> is_valid res \<and> errors res \<noteq> []) \<and>
   (\<exists>res. validate_inputs ''y_internal_fuses'' (y_data 4 6 6 2) = Inr res \<and>
      is_valid res \<and> errors res = [])"
proof (intro conjI)
  obtain res where r: "validate_inputs ''y_internal_fuses'' data = Inr res"
    using y_internal_total by blast
  show "\<exists>res. validate_inputs ''y_internal_fuses'' data = Inr res \<and>
      (is_valid res \<longleftrightarrow>
         (\<exists>s pt pa p. data ''S'' = Some s \<and> data ''Pt'' = Some pt \<and> data ''Pa'' = Some pa \<and>
            data ''P'' = Some p \<and> 1 \<le> py_int s \<and> 1 \<le> py_int pt \<and> py_int pa = py_int pt \<and>
            1 \<le> py_int p \<and> py_int pa mod py_int p = 0)) \<and>
      (\<not> is_valid res \<longrightarrow> errors res \<noteq> [])"
    using r y_internal_valid [OF r] y_internal_errors [OF r] by (intro exI [of _ res]) simp
next
  obtain res where r: "validate_inputs ''y_internal_fuses'' (y_data s pt 7 2) = Inr res"
    using y_internal_total by blast
  have "\<not> is_valid res"
    unfolding y_internal_valid [OF r] by (simp add: y_data_lookup)
  then show "\<exists>res. validate_inputs ''y_internal_fuses'' (y_data s pt 7 2) = Inr res \<and>
      \<not> is_valid res \<and> errors res \<noteq> []"
    using r y_internal_errors [OF r] by (intro exI [of _ res]) simp
next
  obtain res where r: "validate_inputs ''y_internal_fuses'' (y_data 4 6 6 2) = Inr res"
    using y_internal_total by blast
  have "is_valid res"
    unfolding y_internal_valid [OF r] by (simp add: y_data_lookup)
  then show "\<exists>res. validate_inputs ''y_internal_fuses'' (y_data 4 6 6 2) = Inr res \<and>
      is_valid res \<and> errors res = []"
    using r y_internal_errors [OF r] by (intro exI [of _ res]) simp
qed

theorem y_internal_validator_witness:
  "validate_inputs ''y_internal_fuses'' (y_data 4 7 7 2)
     = Inr \<lparr>is_valid = False, errors = [message (Pa_not_multiple_of_P 7 2)], warnings = []\<rparr> \<and>
   (\<exists>res. validate_inputs ''y_internal_fuses'' (y_data 4 7 7 2) = Inr res \<and>
      \<not> is_valid res \<and> errors res \<noteq> []) \<and>
   (\<exists>res. validate_inputs ''y_internal_fuses'' (y_data 4 6 6 2) = Inr res \<and>
      is_valid res \<and> errors res = [])"
proof -
  have "validate_inputs ''y_internal_fuses'' (y_data 4 7 7 2)
     = Inr \<lparr>is_valid = False, errors = [message (Pa_not_multiple_of_P 7 2)], warnings = []\<rparr>"
    by (simp add: y_internal_inputs validate_nominal_data_def require_key_def int_of_key_def
        getitem_def y_data_lookup ebind_check check_def)
  then show ?thesis
    using y_internal_validator [of "y_data 4 7 7 2" 4 7] by simp
qed

section \<open>C8: the nominal quantities\<close>

lemma nameplate_lookup:
  "nameplate V_ll V_rated Q_total f s pt ''tensao_trifasica_banco_V'' = Some V_ll"
  "nameplate V_ll V_rated Q_total f s pt ''V_rated'' = Some V_rated"
  "nameplate V_ll V_rated Q_total f s pt ''potencia_trifasica_banco_VAr'' = Some Q_total"
  "nameplate V_ll V_rated Q_total f s pt ''frequencia_Hz'' = Some f"
  "nameplate V_ll V_rated Q_total f s pt ''S'' = Some (real_of_int s)"
  "nameplate V_ll V_rated Q_total f s pt ''Pt'' = Some (real_of_int pt)"
  "nameplate V_ll V_rated Q_total f s pt ''Su'' = None"
  "nameplate V_ll V_rated Q_total f s pt ''N'' = None"
  by (simp_all add: nameplate_def)

lemma basis_formulas:
  assumes "d ''tensao_trifasica_banco_V'' = Some V_ll" and "d ''V_rated'' = Some V_rated"
    and "d ''potencia_trifasica_banco_VAr'' = Some Q_total" and "d ''frequencia_Hz'' = Some f"
    and "d ''S'' = Some s" and "d ''Pt'' = Some pt" and "d ''Su'' = None" and "d ''N'' = None"
  shows "calcular_nominais_celula d =
     (if V_ll = 0 \<or> f = 0 \<or> py_int pt = 0 \<or> py_int s = 0 then Inl ZeroDivisionError
      else
        let S' = real_of_int (py_int s);
            Pt' = real_of_int (py_int pt);
            V_phase = V_ll / sqrt 3;
            I_bank = Q_total / (sqrt 3 * V_ll);
            C_phase = (Q_total / 3) / (2 * pi * f * V_phase ^ 2);
            C_unit = C_phase * S' / Pt';
            V_unit = V_phase / S';
            I_unit = I_bank / Pt'
        in Inr [(''V_ll'', Some V_ll), (''V_phase'', Some V_phase), (''I_bank'', Some I_bank),
                (''C_phase'', Some C_phase), (''C_unit'', Some C_unit), (''V_unit'', Some V_unit),
                (''I_unit'', Some I_unit), (''C_grupo_serie'', None), (''V_grupo_serie'', None),
                (''I_grupo_serie'', None), (''C_element'', None), (''V_element'', None),
                (''I_element'', None), (''V_rated'', Some V_rated), (''S'', Some S')])"
  using assms
  by (simp add: calcular_nominais_celula_def getitem_def truediv_def Let_def)




section \<open>C7: what the unit converter keeps\<close>

lemma for_each_length: "for_each body xs = Inr rows \<Longrightarrow> length rows = length xs"
  using for_each_Inr_map [of body xs rows "\<lambda>_. ()" "\<lambda>_. ()"] 
  by (metis length_map)

lemma mul_col_length: "mul_col col c = Inr xs \<Longrightarrow> length xs = length col"
  unfolding mul_col_def by (rule for_each_length)

text \<open>What one block appends: nothing, or the per-unit column and its converted copy.\<close>

lemma convert_block_shape:
  assumes "convert_block fr res c c' k uf unit out = Inr out'" and "c \<noteq> c'"
  shows "\<exists>blk. out' = out @ blk \<and> map_of blk c = map_of fr c \<and>
           (\<forall>x. x \<noteq> c \<and> x \<noteq> c' \<longrightarrow> map_of blk x = None) \<and>
           (\<forall>n col'. (n, col') \<in> set blk \<longrightarrow>
              (n = c \<or> n = c') \<and> (\<exists>col. map_of fr c = Some col \<and> length col' = length col))"
proof (cases "map_of fr c")
  case None
  with assms show ?thesis by (simp add: convert_block_def)
next
  case (Some col)
  with assms(1) obtain rc where rc: "out' = out @ [(c, col), (c', rc)]"
    and len: "length rc = length col"
    by (auto simp: convert_block_def ebind_eq_Inr dest!: mul_col_length split: if_splits)
  show ?thesis
    by (rule exI [of _ "[(c, col), (c', rc)]"]) (use rc len Some assms(2) in auto)
qed

lemma Vcu2_block_shape:
  assumes "(case map_of fr ''Vcu'' of None \<Rightarrow> Inr out | Some col \<Rightarrow> Vcu2_block res col out) = Inr out'"
  shows "\<exists>blk. out' = out @ blk \<and> (\<forall>x. x \<noteq> ''Vcu2'' \<longrightarrow> map_of blk x = None) \<and>
           (\<forall>n col'. (n, col') \<in> set blk \<longrightarrow>
              n = ''Vcu2'' \<and> (\<exists>col. map_of fr ''Vcu'' = Some col \<and> length col' = length col))"
proof (cases "map_of fr ''Vcu''")
  case None
  with assms show ?thesis by simp
next
  case (Some col)
  with assms have "out' = out \<or> (\<exists>c2. out' = out @ [(''Vcu2'', c2)] \<and> length c2 = length col)"
    by (auto simp: Vcu2_block_def ebind_eq_Inr dest!: mul_col_length split: if_splits)
  then show ?thesis
  proof
    assume "out' = out"
    then show ?thesis by simp
  next
    assume "\<exists>c2. out' = out @ [(''Vcu2'', c2)] \<and> length c2 = length col"
    then obtain c2 where "out' = out @ [(''Vcu2'', c2)]" "length c2 = length col" by blast
    then show ?thesis
      by (intro exI [of _ "[(''Vcu2'', c2)]"]) (use Some in auto)
  qed
qed


lemma map_of_append_fresh:
  "map_of (xs @ ys) x = (case map_of xs x of None \<Rightarrow> map_of ys x | Some v \<Rightarrow> Some v)"
  by (simp add: map_add_def split: option.splits)

lemma map_of_None_fresh: "fst ` set xs \<subseteq> A \<Longrightarrow> x \<notin> A \<Longrightarrow> map_of xs x = None"
  by (meson map_of_eq_None_iff subsetD)

lemma convert_block_step:
  assumes run: "convert_block fr res c c' k uf unit out = Inr out'"
    and fresh: "c \<noteq> c'" "c \<notin> A" "c' \<notin> A"
    and inv: "converted_so_far fr out A B"
  shows "converted_so_far fr out' (insert c (insert c' A)) (insert c B)"
proof -
  from inv have names: "fst ` set out \<subseteq> A" and BA: "B \<subseteq> A"
    and kept: "\<forall>x \<in> B. map_of out x = map_of fr x"
    and rows: "\<forall>n col'. (n, col') \<in> set out \<longrightarrow>
                 (\<exists>c0 col. map_of fr c0 = Some col \<and> length col' = length col)"
    by (simp_all add: converted_so_far_def)
  from convert_block_shape [OF run fresh(1)] obtain blk
    where o: "out' = out @ blk" and pc: "map_of blk c = map_of fr c"
      and other: "\<forall>x. x \<noteq> c \<and> x \<noteq> c' \<longrightarrow> map_of blk x = None"
      and mem: "\<forall>n col'. (n, col') \<in> set blk \<longrightarrow>
              (n = c \<or> n = c') \<and> (\<exists>col. map_of fr c = Some col \<and> length col' = length col)"
    by blast
  have 1: "fst ` set out' \<subseteq> insert c (insert c' A)"
    unfolding o using names mem by fastforce
  have 2: "\<forall>x \<in> insert c B. map_of out' x = map_of fr x"
  proof
    fix x assume x: "x \<in> insert c B"
    show "map_of out' x = map_of fr x"
    proof (cases "x = c")
      case True
      have "map_of out c = None" using names fresh(2) by (rule map_of_None_fresh)
      then show ?thesis
        unfolding o True by (simp add: map_of_append_fresh pc del: map_of_append)
    next
      case False
      with x have xB: "x \<in> B" by simp
      with BA fresh have "x \<noteq> c \<and> x \<noteq> c'" by auto
      with other have "map_of blk x = None" by simp
      with kept xB show ?thesis
        unfolding o by (simp add: map_of_append_fresh del: map_of_append split: option.splits)
    qed
  qed
  have 3: "\<forall>n col'. (n, col') \<in> set out' \<longrightarrow>
                 (\<exists>c0 col. map_of fr c0 = Some col \<and> length col' = length col)"
    unfolding o using rows mem by (metis Un_iff set_append)
  show ?thesis
    unfolding converted_so_far_def using 1 2 3 BA by auto
qed

lemma Vcu2_block_step:
  assumes run: "(case map_of fr ''Vcu'' of None \<Rightarrow> Inr out | Some col \<Rightarrow> Vcu2_block res col out)
                  = Inr out'"
    and fresh: "''Vcu2'' \<notin> A"
    and inv: "converted_so_far fr out A B"
  shows "converted_so_far fr out' (insert ''Vcu2'' A) B"
proof -
  from inv have names: "fst ` set out \<subseteq> A" and BA: "B \<subseteq> A"
    and kept: "\<forall>x \<in> B. map_of out x = map_of fr x"
    and rows: "\<forall>n col'. (n, col') \<in> set out \<longrightarrow>
                 (\<exists>c0 col. map_of fr c0 = Some col \<and> length col' = length col)"
    by (simp_all add: converted_so_far_def)
  from Vcu2_block_shape [OF run] obtain blk
    where o: "out' = out @ blk"
      and other: "\<forall>x. x \<noteq> ''Vcu2'' \<longrightarrow> map_of blk x = None"
      and mem: "\<forall>n col'. (n, col') \<in> set blk \<longrightarrow>
              n = ''Vcu2'' \<and> (\<exists>col. map_of fr ''Vcu'' = Some col \<and> length col' = length col)"
    by blast
  have 1: "fst ` set out' \<subseteq> insert ''Vcu2'' A"
    unfolding o using names mem by fastforce
  have 2: "\<forall>x \<in> B. map_of out' x = map_of fr x"
  proof
    fix x assume xB: "x \<in> B"
    with BA fresh have "x \<noteq> ''Vcu2''" by auto
    with other have "map_of blk x = None" by simp
    with kept xB show "map_of out' x = map_of fr x"
      unfolding o by (simp add: map_of_append_fresh del: map_of_append split: option.splits)
  qed
  have 3: "\<forall>n col'. (n, col') \<in> set out' \<longrightarrow>
                 (\<exists>c0 col. map_of fr c0 = Some col \<and> length col' = length col)"
    unfolding o using rows mem by (metis Un_iff set_append)
  show ?thesis
    unfolding converted_so_far_def using 1 2 3 BA by auto
qed

lemma converter_invariant:
  assumes "converter_unidades fr resultados = Inr out"
  shows "\<exists>o10. out = map (\<lambda>(name, col). (name, map formatar_valores col)) o10 \<and>
           converted_so_far fr o10 (set output_columns) (set pu_columns)"
proof -
  from assms obtain o1 o2 o3 o4 o5 o6 o7 o8 o9 o10 where
    s1: "convert_block fr resultados ''Cp'' ''Cp_uF'' ''C_phase'' True (10 ^ 6) [] = Inr o1" and
    s2: "convert_block fr resultados ''Cu'' ''C_unit_uF'' ''C_unit'' True (10 ^ 6) o1 = Inr o2" and
    s3: "convert_block fr resultados ''Vng'' ''V_ng_V'' ''V_phase'' False 1 o2 = Inr o3" and
    s4: "convert_block fr resultados ''In'' ''In_A'' ''I_bank'' False 1 o3 = Inr o4" and
    s5: "convert_block fr resultados ''Ig'' ''Ig_A'' ''I_bank'' False 1 o4 = Inr o5" and
    s6: "convert_block fr resultados ''Chn'' ''Chn_uF'' ''C_phase'' False (10 ^ 6) o5 = Inr o6" and
    s7: "convert_block fr resultados ''Vhn'' ''Vhn_V'' ''V_phase'' False 1 o6 = Inr o7" and
    s8: "convert_block fr resultados ''Ih'' ''Ih_A'' ''I_bank'' False 1 o7 = Inr o8" and
    s9: "convert_block fr resultados ''Vcu'' ''Vcu_kV'' ''V_unit'' False (1 / 10 ^ 3) o8 = Inr o9" and
    s10: "(case map_of fr ''Vcu'' of None \<Rightarrow> Inr o9 | Some col \<Rightarrow> Vcu2_block resultados col o9)
            = Inr o10" and
    out: "out = map (\<lambda>(name, col). (name, map formatar_valores col)) o10"
    unfolding converter_unidades_def ebind_eq_Inr by auto
  have i0: "converted_so_far fr [] {} {}"
    by (simp add: converted_so_far_def)
  have i1: "converted_so_far fr o1 {''Cp'', ''Cp_uF''}
              {''Cp''}"
    using s1 _ _ _ i0 by (rule convert_block_step) simp_all
  have i2: "converted_so_far fr o2 {''Cu'', ''C_unit_uF'', ''Cp'', ''Cp_uF''}
              {''Cu'', ''Cp''}"
    using s2 _ _ _ i1 by (rule convert_block_step) simp_all
  have i3: "converted_so_far fr o3 {''Vng'', ''V_ng_V'', ''Cu'', ''C_unit_uF'', ''Cp'', ''Cp_uF''}
              {''Vng'', ''Cu'', ''Cp''}"
    using s3 _ _ _ i2 by (rule convert_block_step) simp_all
  have i4: "converted_so_far fr o4 {''In'', ''In_A'', ''Vng'', ''V_ng_V'', ''Cu'', ''C_unit_uF'', ''Cp'', ''Cp_uF''}
              {''In'', ''Vng'', ''Cu'', ''Cp''}"
    using s4 _ _ _ i3 by (rule convert_block_step) simp_all
  have i5: "converted_so_far fr o5 {''Ig'', ''Ig_A'', ''In'', ''In_A'', ''Vng'', ''V_ng_V'', ''Cu'', ''C_unit_uF'', ''Cp'', ''Cp_uF''}
              {''Ig'', ''In'', ''Vng'', ''Cu'', ''Cp''}"
    using s5 _ _ _ i4 by (rule convert_block_step) simp_all
  have i6: "converted_so_far fr o6 {''Chn'', ''Chn_uF'', ''Ig'', ''Ig_A'', ''In'', ''In_A'', ''Vng'', ''V_ng_V'', ''Cu'', ''C_unit_uF'', ''Cp'', ''Cp_uF''}
              {''Chn'', ''Ig'', ''In'', ''Vng'', ''Cu'', ''Cp''}"
    using s6 _ _ _ i5 by (rule convert_block_step) simp_all
  have i7: "converted_so_far fr o7 {''Vhn'', ''Vhn_V'', ''Chn'', ''Chn_uF'', ''Ig'', ''Ig_A'', ''In'', ''In_A'', ''Vng'', ''V_ng_V'', ''Cu'', ''C_unit_uF'', ''Cp'', ''Cp_uF''}
              {''Vhn'', ''Chn'', ''Ig'', ''In'', ''Vng'', ''Cu'', ''Cp''}"
    using s7 _ _ _ i6 by (rule convert_block_step) simp_all
  have i8: "converted_so_far fr o8 {''Ih'', ''Ih_A'', ''Vhn'', ''Vhn_V'', ''Chn'', ''Chn_uF'', ''Ig'', ''Ig_A'', ''In'', ''In_A'', ''Vng'', ''V_ng_V'', ''Cu'', ''C_unit_uF'', ''Cp'', ''Cp_uF''}
              {''Ih'', ''Vhn'', ''Chn'', ''Ig'', ''In'', ''Vng'', ''Cu'', ''Cp''}"
    using s8 _ _ _ i7 by (rule convert_block_step) simp_all
  have i9: "converted_so_far fr o9 {''Vcu'', ''Vcu_kV'', ''Ih'', ''Ih_A'', ''Vhn'', ''Vhn_V'', ''Chn'', ''Chn_uF'', ''Ig'', ''Ig_A'', ''In'', ''In_A'', ''Vng'', ''V_ng_V'', ''Cu'', ''C_unit_uF'', ''Cp'', ''Cp_uF''}
              {''Vcu'', ''Ih'', ''Vhn'', ''Chn'', ''Ig'', ''In'', ''Vng'', ''Cu'', ''Cp''}"
    using s9 _ _ _ i8 by (rule convert_block_step) simp_all
  have i10: "converted_so_far fr o10 {''Vcu2'', ''Vcu'', ''Vcu_kV'', ''Ih'', ''Ih_A'', ''Vhn'', ''Vhn_V'', ''Chn'', ''Chn_uF'', ''Ig'', ''Ig_A'', ''In'', ''In_A'', ''Vng'', ''V_ng_V'', ''Cu'', ''C_unit_uF'', ''Cp'', ''Cp_uF''}
              {''Vcu'', ''Ih'', ''Vhn'', ''Chn'', ''Ig'', ''In'', ''Vng'', ''Cu'', ''Cp''}"
    using s10 _ i9 by (rule Vcu2_block_step) simp
  have A: "{''Vcu2'', ''Vcu'', ''Vcu_kV'', ''Ih'', ''Ih_A'', ''Vhn'', ''Vhn_V'', ''Chn'', ''Chn_uF'', ''Ig'', ''Ig_A'', ''In'', ''In_A'', ''Vng'', ''V_ng_V'', ''Cu'', ''C_unit_uF'', ''Cp'', ''Cp_uF''} = set output_columns"
    by (auto simp: output_columns_def)
  have B: "{''Vcu'', ''Ih'', ''Vhn'', ''Chn'', ''Ig'', ''In'', ''Vng'', ''Cu'', ''Cp''} = set pu_columns"
    by (auto simp: pu_columns_def)
  show ?thesis
    using out i10 unfolding A B by blast
qed


lemma map_of_formatted:
  "map_of (map (\<lambda>(name, col). (name, map formatar_valores col)) xs) c
     = map_option (map formatar_valores) (map_of xs c)"
  by (induction xs) auto

lemma pu_table_converted:
  "converter_unidades pu_table pu_bases =
     Inr [(''Cp'', [IntC 1, Flt 0.9877]), (''Cp_uF'', [IntC 2, Flt 1.9753])]"
  by (simp add: converter_unidades_def convert_block_def mul_col_def mul_cell_def factor_of_def
      pu_table_def pu_bases_def formatar_valores_def round_or_int_def py_int_def rounding)




section \<open>C2: the critical row\<close>

text \<open>\<open>idxmax\<close> returns the first entry that holds the maximum.\<close>

lemma idxmax_split:
  "\<exists>pre post. best # xs = pre @ idxmax best xs # post \<and>
     (\<forall>p \<in> set pre. snd p < snd (idxmax best xs)) \<and>
     (\<forall>p \<in> set post. snd p \<le> snd (idxmax best xs))"
proof (induction xs arbitrary: best)
  case Nil
  show ?case by (intro exI [of _ "[]"]) simp
next
  case (Cons x xs)
  show ?case
  proof (cases "snd best < snd x")
    case True
    then have step: "idxmax best (x # xs) = idxmax x xs" by simp
    from Cons.IH [of x] obtain pre post where s: "x # xs = pre @ idxmax x xs # post"
      and lt: "\<forall>p \<in> set pre. snd p < snd (idxmax x xs)"
      and le: "\<forall>p \<in> set post. snd p \<le> snd (idxmax x xs)"
      by blast
    have "snd x \<le> snd (idxmax x xs)"
    proof (cases pre)
      case Nil
      with s show ?thesis by (metis append_Nil list.inject order_refl)
    next
      case (Cons a as)
      with s have "x \<in> set pre" by simp
      with lt show ?thesis by force
    qed
    with True have "snd best < snd (idxmax x xs)" by simp
    with lt have l: "\<forall>p \<in> set (best # pre). snd p < snd (idxmax x xs)" by simp
    have e: "best # x # xs = (best # pre) @ idxmax x xs # post"
      by (simp only: s append_Cons)
    show ?thesis unfolding step using e l le by blast
  next
    case False
    then have step: "idxmax best (x # xs) = idxmax best xs" by simp
    from Cons.IH [of best] obtain pre post where s: "best # xs = pre @ idxmax best xs # post"
      and lt: "\<forall>p \<in> set pre. snd p < snd (idxmax best xs)"
      and le: "\<forall>p \<in> set post. snd p \<le> snd (idxmax best xs)"
      by blast
    show ?thesis
    proof (cases pre)
      case Nil
      with s have m: "idxmax best xs = best" and p: "post = xs"
        by (metis append_Nil list.inject)+
      have e: "best # x # xs = [] @ idxmax best xs # (x # xs)" by (simp only: m append_Nil)
      have l: "\<forall>p \<in> set (x # xs). snd p \<le> snd (idxmax best xs)"
        using le p m False by auto
      have "\<forall>p \<in> set ([] :: ('a \<times> real) list). snd p < snd (idxmax best xs)" by simp
      with e l show ?thesis unfolding step by blast
    next
      case (Cons a as)
      with s have a: "a = best" and rest: "xs = as @ idxmax best xs # post"
        by (metis append_Cons list.inject)+
      have "snd best < snd (idxmax best xs)" using lt Cons a by simp
      with False have "snd x < snd (idxmax best xs)" by simp
      with lt Cons a have l: "\<forall>p \<in> set (best # x # as). snd p < snd (idxmax best xs)" by simp
      have e: "best # x # xs = (best # x # as) @ idxmax best xs # post"
        using rest by (metis append_Cons)
      show ?thesis unfolding step using e l le by blast
    qed
  qed
qed


text \<open>The rows that pass the mask, read back in the table.\<close>

lemma masked_Nil:
  assumes "masked keys vcu = []" and "length keys = length vcu"
    and "i < length vcu" and "vcu ! i = Some x"
  shows "\<not> x \<le> 11 / 10"
proof
  assume x: "x \<le> 11 / 10"
  have "(keys ! i, vcu ! i) \<in> set (zip keys vcu)"
    using assms(2,3) by (metis in_set_zip fst_conv snd_conv)
  then have "(keys ! i, x) \<in> set (masked keys vcu)"
    unfolding masked_def using x assms(4) by (auto intro!: bexI [of _ "(keys ! i, Some x)"])
  with assms(1) show False by simp
qed

lemma masked_split:
  assumes "masked keys vcu = pre @ (k, x) # post" and "length keys = length vcu"
  shows "\<exists>i. i < length vcu \<and> vcu ! i = Some x \<and> keys ! i = k \<and> x \<le> 11 / 10 \<and>
           (\<forall>j y. j < i \<and> vcu ! j = Some y \<and> y \<le> 11 / 10 \<longrightarrow> (keys ! j, y) \<in> set pre) \<and>
           (\<forall>j y. i < j \<and> j < length vcu \<and> vcu ! j = Some y \<and> y \<le> 11 / 10
                    \<longrightarrow> (keys ! j, y) \<in> set post)"
  using assms
proof (induction keys vcu arbitrary: pre rule: list_induct2')
  case 1
  then show ?case by (simp add: masked_def)
next
  case (2 k' ks)
  then show ?case by simp
next
  case (3 v vs)
  then show ?case by simp
next
  case (4 k' ks v vs)
  have len: "length ks = length vs" using "4.prems"(2) by simp
  have unfold: "masked (k' # ks) (v # vs)
      = (case v of None \<Rightarrow> [] | Some y \<Rightarrow> if y \<le> 11 / 10 then [(k', y)] else []) @ masked ks vs"
    unfolding masked_def by (simp only: zip_Cons_Cons list.map concat.simps prod.case)
  consider (skip) "masked (k' # ks) (v # vs) = masked ks vs"
      "\<forall>y. v = Some y \<longrightarrow> \<not> y \<le> 11 / 10"
    | (take) y where "v = Some y" "y \<le> 11 / 10"
      "masked (k' # ks) (v # vs) = (k', y) # masked ks vs"
    unfolding unfold by (cases v) auto
  then show ?case
  proof cases
    case skip
    with "4.prems"(1) have "masked ks vs = pre @ (k, x) # post" by simp
    from "4.IH" [OF this len] obtain i where i: "i < length vs" "vs ! i = Some x" "ks ! i = k"
      "x \<le> 11 / 10"
      and before: "\<forall>j y. j < i \<and> vs ! j = Some y \<and> y \<le> 11 / 10 \<longrightarrow> (ks ! j, y) \<in> set pre"
      and after: "\<forall>j y. i < j \<and> j < length vs \<and> vs ! j = Some y \<and> y \<le> 11 / 10
                    \<longrightarrow> (ks ! j, y) \<in> set post"
      by blast
    show ?thesis
    proof (intro exI [of _ "Suc i"] conjI allI impI)
      show "Suc i < length (v # vs)" "(v # vs) ! Suc i = Some x" "(k' # ks) ! Suc i = k"
        "x \<le> 11 / 10"
        using i by simp_all
    next
      fix j y assume a: "j < Suc i \<and> (v # vs) ! j = Some y \<and> y \<le> 11 / 10"
      show "((k' # ks) ! j, y) \<in> set pre"
      proof (cases j)
        case 0
        with a skip(2) show ?thesis by simp
      next
        case (Suc j')
        with a before show ?thesis by simp
      qed
    next
      fix j y assume a: "Suc i < j \<and> j < length (v # vs) \<and> (v # vs) ! j = Some y \<and> y \<le> 11 / 10"
      then obtain j' where "j = Suc j'" by (cases j) simp_all
      with a after show "((k' # ks) ! j, y) \<in> set post" by simp
    qed
  next
    case take
    show ?thesis
    proof (cases pre)
      case Nil
      with take(3) "4.prems"(1) have eq: "k' = k" "y = x" and post: "post = masked ks vs"
        by simp_all
      show ?thesis
      proof (intro exI [of _ 0] conjI allI impI)
        show "0 < length (v # vs)" "(v # vs) ! 0 = Some x" "(k' # ks) ! 0 = k" "x \<le> 11 / 10"
          using take eq by simp_all
      next
        fix j y' assume "j < 0 \<and> (v # vs) ! j = Some y' \<and> y' \<le> 11 / 10"
        then show "((k' # ks) ! j, y') \<in> set pre" by simp
      next
        fix j y'
        assume a: "0 < j \<and> j < length (v # vs) \<and> (v # vs) ! j = Some y' \<and> y' \<le> 11 / 10"
        then obtain j' where j: "j = Suc j'" by (cases j) simp_all
        with a have "j' < length vs" "vs ! j' = Some y'" "y' \<le> 11 / 10" by simp_all
        moreover have "(ks ! j', vs ! j') \<in> set (zip ks vs)"
          using len \<open>j' < length vs\<close> by (metis in_set_zip fst_conv snd_conv)
        ultimately have "(ks ! j', y') \<in> set (masked ks vs)"
          unfolding masked_def by (auto intro!: bexI [of _ "(ks ! j', Some y')"])
        then show "((k' # ks) ! j, y') \<in> set post" using j post by simp
      qed
    next
      case (Cons p ps)
      with take(3) "4.prems"(1) have p: "p = (k', y)" and rest: "masked ks vs = ps @ (k, x) # post"
        by simp_all
      from "4.IH" [OF rest len] obtain i where i: "i < length vs" "vs ! i = Some x" "ks ! i = k"
        "x \<le> 11 / 10"
        and before: "\<forall>j y. j < i \<and> vs ! j = Some y \<and> y \<le> 11 / 10 \<longrightarrow> (ks ! j, y) \<in> set ps"
        and after: "\<forall>j y. i < j \<and> j < length vs \<and> vs ! j = Some y \<and> y \<le> 11 / 10
                    \<longrightarrow> (ks ! j, y) \<in> set post"
        by blast
      show ?thesis
      proof (intro exI [of _ "Suc i"] conjI allI impI)
        show "Suc i < length (v # vs)" "(v # vs) ! Suc i = Some x" "(k' # ks) ! Suc i = k"
          "x \<le> 11 / 10"
          using i by simp_all
      next
        fix j y' assume a: "j < Suc i \<and> (v # vs) ! j = Some y' \<and> y' \<le> 11 / 10"
        show "((k' # ks) ! j, y') \<in> set pre"
        proof (cases j)
          case 0
          with a take(1) p Cons show ?thesis by simp
        next
          case (Suc j')
          with a before Cons show ?thesis by simp
        qed
      next
        fix j y'
        assume a: "Suc i < j \<and> j < length (v # vs) \<and> (v # vs) ! j = Some y' \<and> y' \<le> 11 / 10"
        then obtain j' where "j = Suc j'" by (cases j) simp_all
        with a after show "((k' # ks) ! j, y') \<in> set post" by simp
      qed
    qed
  qed
qed


lemma line_max_vcu_columns:
  assumes "map_of df_ieee ''Vcu'' = Some vcu_col" and "key_column df_ieee = Some keys"
    and "for_each num_cell vcu_col = Inr vcu"
  shows "line_max_vcu df_ieee =
           (case masked keys vcu of
              [] \<Rightarrow> Inr None
            | c # cs \<Rightarrow> ebind (int_cell (fst (idxmax c cs))) (\<lambda>i. Inr (Some i)))"
  using assms by (simp add: line_max_vcu_def)

lemma line_max_vcu_absent:
  "map_of df_ieee ''Vcu'' = None \<or> key_column df_ieee = None \<Longrightarrow> line_max_vcu df_ieee = Inr None"
  by (auto simp: line_max_vcu_def split: option.splits)

lemma first_maximal_row:
  assumes cols: "map_of df_ieee ''Vcu'' = Some vcu_col" "key_column df_ieee = Some keys"
    and len: "length keys = length vcu_col"
    and num: "for_each num_cell vcu_col = Inr vcu"
  shows "if \<exists>i < length vcu. \<exists>x. vcu ! i = Some x \<and> x \<le> 11 / 10
         then \<exists>i x. i < length vcu \<and> vcu ! i = Some x \<and> x \<le> 11 / 10 \<and>
                (\<forall>j y. j < length vcu \<and> vcu ! j = Some y \<and> y \<le> 11 / 10 \<longrightarrow> y \<le> x) \<and>
                (\<forall>j y. j < i \<and> vcu ! j = Some y \<and> y \<le> 11 / 10 \<longrightarrow> y < x) \<and>
                line_max_vcu df_ieee = ebind (int_cell (keys ! i)) (\<lambda>k. Inr (Some k))
         else line_max_vcu df_ieee = Inr None"
proof -
  have len': "length keys = length vcu"
    using len for_each_length [OF num] by simp
  note run = line_max_vcu_columns [OF cols num]
  show ?thesis
  proof (cases "masked keys vcu")
    case Nil
    then have "\<not> (\<exists>i < length vcu. \<exists>x. vcu ! i = Some x \<and> x \<le> 11 / 10)"
      using masked_Nil [OF Nil len'] by blast
    moreover have "line_max_vcu df_ieee = Inr None" using run Nil by simp
    ultimately show ?thesis by (simp only: if_False)
  next
    case (Cons c cs)
    from idxmax_split [of c cs] obtain pre post
      where split: "c # cs = pre @ idxmax c cs # post"
        and lt: "\<forall>p \<in> set pre. snd p < snd (idxmax c cs)"
        and le: "\<forall>p \<in> set post. snd p \<le> snd (idxmax c cs)"
      by blast
    obtain k x where m: "idxmax c cs = (k, x)" by (cases "idxmax c cs")
    have "masked keys vcu = pre @ (k, x) # post" using Cons split m by simp
    from masked_split [OF this len'] obtain i
      where i: "i < length vcu" "vcu ! i = Some x" "keys ! i = k" "x \<le> 11 / 10"
        and before: "\<forall>j y. j < i \<and> vcu ! j = Some y \<and> y \<le> 11 / 10
                       \<longrightarrow> (keys ! j, y) \<in> set pre"
        and after: "\<forall>j y. i < j \<and> j < length vcu \<and> vcu ! j = Some y \<and> y \<le> 11 / 10
                       \<longrightarrow> (keys ! j, y) \<in> set post"
      by blast
    have first: "\<forall>j y. j < i \<and> vcu ! j = Some y \<and> y \<le> 11 / 10 \<longrightarrow> y < x"
      using before lt m by fastforce
    have maxi: "\<forall>j y. j < length vcu \<and> vcu ! j = Some y \<and> y \<le> 11 / 10 \<longrightarrow> y \<le> x"
    proof (intro allI impI)
      fix j y assume a: "j < length vcu \<and> vcu ! j = Some y \<and> y \<le> 11 / 10"
      consider "j < i" | "j = i" | "i < j" by linarith
      then show "y \<le> x"
      proof cases
        case 1
        with a first show ?thesis by fastforce
      next
        case 2
        with a i show ?thesis by simp
      next
        case 3
        with a after have "(keys ! j, y) \<in> set post" by blast
        with le m show ?thesis by fastforce
      qed
    qed
    have res: "line_max_vcu df_ieee = ebind (int_cell (keys ! i)) (\<lambda>k. Inr (Some k))"
      using run Cons m i(3) by simp
    have "\<exists>i < length vcu. \<exists>x. vcu ! i = Some x \<and> x \<le> 11 / 10"
      using i by blast
    moreover have "\<exists>i x. i < length vcu \<and> vcu ! i = Some x \<and> x \<le> 11 / 10 \<and>
                (\<forall>j y. j < length vcu \<and> vcu ! j = Some y \<and> y \<le> 11 / 10 \<longrightarrow> y \<le> x) \<and>
                (\<forall>j y. j < i \<and> vcu ! j = Some y \<and> y \<le> 11 / 10 \<longrightarrow> y < x) \<and>
                line_max_vcu df_ieee = ebind (int_cell (keys ! i)) (\<lambda>k. Inr (Some k))"
      using i maxi first res by blast
    ultimately show ?thesis by (simp only: if_True)
  qed
qed


lemma rated_bases:
  "\<exists>bases. calcular_nominais_celula rated_nameplate = Inr bases \<and>
     map_of bases ''V_unit'' = Some (Some (13800 / sqrt 3 / 4)) \<and>
     map_of bases ''V_rated'' = Some (Some 15000) \<and>
     map_of bases ''S'' = Some (Some 4)"
  using basis_formulas [of "nameplate 13800 15000 3000000 60 4 6" 13800 15000 3000000 60
          "real_of_int 4" "real_of_int 6", OF nameplate_lookup]
  by (simp add: rated_nameplate_def Let_def)

lemma rated_factor: "truediv (13800 / sqrt 3 / 4) (15000 / sqrt 3 / 4) = Inr (23 / 25)"
  by (simp add: truediv_def)

lemma ieee_table_converted:
  assumes "resultados ''V_unit'' = Some (Some (13800 / sqrt 3 / 4))"
    and "resultados ''V_rated'' = Some (Some 15000)" and "resultados ''S'' = Some (Some 4)"
  shows "\<exists>kv. converter_unidades ieee_table resultados =
           Inr [(''Vcu'', map formatar_valores [Flt 1, Flt 1.08, Flt 1.15]),
                (''Vcu_kV'', kv),
                (''Vcu2'', map formatar_valores [Flt 0.92, Flt 0.9936, Flt 1.058])]"
  using assms
  by (simp add: converter_unidades_def convert_block_def Vcu2_block_def mul_col_def mul_cell_def
      factor_of_def ieee_table_def rated_factor truediv_def)


lemma ieee_table_line: "line_max_vcu ieee_table = Inr (Some 1)"
  by (simp add: line_max_vcu_def key_column_def masked_def num_cell_def int_cell_def
      ieee_table_def)

lemma ieee_table_ratio:
  "map formatar_valores [Flt 0.92, Flt 0.9936, Flt 1.058] = [Flt 0.92, Flt 0.9936, Flt 1.058]"
  by (simp add: formatar_valores_def round_or_int_def rounding)

text \<open>
  C2, as the code has it. The critical row is computed on the per-unit table, from its
  column \<open>Vcu\<close> (the unit voltage relative to the working basis), not from the rated-voltage
  ratio \<open>Vcu2\<close> of the converted table. When the table lacks the column \<open>Vcu\<close> or an index
  column (\<open>f\<close>, else \<open>n\<close>), no row is flagged. Otherwise, for a numeric \<open>Vcu\<close> column: when no
  row has \<open>Vcu \<le> 1.1\<close> no row is flagged; when some row has, the critical row is the index
  (\<open>int()\<close> of the \<open>f\<close> or \<open>n\<close> cell) of the first row at which \<open>Vcu\<close> is maximal among the rows
  with \<open>Vcu \<le> 1.1\<close>.
\<close>

theorem critical_row:
  "(map_of df_ieee ''Vcu'' = None \<or> key_column df_ieee = None
      \<longrightarrow> line_max_vcu df_ieee = Inr None) \<and>
   (map_of df_ieee ''Vcu'' = Some vcu_col \<and> key_column df_ieee = Some keys \<and>
    length keys = length vcu_col \<and> for_each num_cell vcu_col = Inr vcu \<longrightarrow>
      (if \<exists>i < length vcu. \<exists>x. vcu ! i = Some x \<and> x \<le> 11 / 10
       then \<exists>i x. i < length vcu \<and> vcu ! i = Some x \<and> x \<le> 11 / 10 \<and>
              (\<forall>j y. j < length vcu \<and> vcu ! j = Some y \<and> y \<le> 11 / 10 \<longrightarrow> y \<le> x) \<and>
              (\<forall>j y. j < i \<and> vcu ! j = Some y \<and> y \<le> 11 / 10 \<longrightarrow> y < x) \<and>
              line_max_vcu df_ieee = ebind (int_cell (keys ! i)) (\<lambda>k. Inr (Some k))
       else line_max_vcu df_ieee = Inr None))"
  using line_max_vcu_absent [of df_ieee] first_maximal_row [of df_ieee vcu_col keys vcu]
  by blast

theorem critical_row_witness:
  "map_of ieee_table ''Vcu'' = Some [Flt 1, Flt 1.08, Flt 1.15] \<and>
   key_column ieee_table = Some [IntC 0, IntC 1, IntC 2] \<and>
   for_each num_cell [Flt 1, Flt 1.08, Flt 1.15] = Inr [Some 1, Some 1.08, Some 1.15] \<and>
   (\<exists>i (x :: real). i < length [Some 1, Some 1.08, Some (1.15 :: real)] \<and>
      [Some 1, Some 1.08, Some 1.15] ! i = Some x \<and> x \<le> 11 / 10 \<and>
      (\<forall>j y. j < length [Some 1, Some 1.08, Some (1.15 :: real)] \<and>
             [Some 1, Some 1.08, Some 1.15] ! j = Some y \<and> y \<le> 11 / 10 \<longrightarrow> y \<le> x) \<and>
      (\<forall>j y. j < i \<and> [Some 1, Some 1.08, Some 1.15] ! j = Some y \<and> y \<le> 11 / 10 \<longrightarrow> y < x) \<and>
      line_max_vcu ieee_table = ebind (int_cell ([IntC 0, IntC 1, IntC 2] ! i)) (\<lambda>k. Inr (Some k))) \<and>
   line_max_vcu ieee_table = Inr (Some 1)"
proof -
  let ?vcu = "[Some 1, Some 1.08, Some (1.15 :: real)]"
  have p1: "map_of ieee_table ''Vcu'' = Some [Flt 1, Flt 1.08, Flt 1.15]"
    by (simp add: ieee_table_def)
  have p2: "key_column ieee_table = Some [IntC 0, IntC 1, IntC 2]"
    by (simp add: ieee_table_def key_column_def)
  have p3: "length [IntC 0, IntC 1, IntC 2] = length [Flt 1, Flt 1.08, Flt 1.15]"
    by simp
  have p4: "for_each num_cell [Flt 1, Flt 1.08, Flt 1.15] = Inr ?vcu"
    by (simp add: num_cell_def)
  have c: "\<exists>i < length ?vcu. \<exists>x. ?vcu ! i = Some x \<and> x \<le> 11 / 10"
    by (intro exI [of _ 0]) simp
  have "if \<exists>i < length ?vcu. \<exists>x. ?vcu ! i = Some x \<and> x \<le> 11 / 10
       then \<exists>i x. i < length ?vcu \<and> ?vcu ! i = Some x \<and> x \<le> 11 / 10 \<and>
              (\<forall>j y. j < length ?vcu \<and> ?vcu ! j = Some y \<and> y \<le> 11 / 10 \<longrightarrow> y \<le> x) \<and>
              (\<forall>j y. j < i \<and> ?vcu ! j = Some y \<and> y \<le> 11 / 10 \<longrightarrow> y < x) \<and>
              line_max_vcu ieee_table
                = ebind (int_cell ([IntC 0, IntC 1, IntC 2] ! i)) (\<lambda>k. Inr (Some k))
       else line_max_vcu ieee_table = Inr None"
    using critical_row [of ieee_table "[Flt 1, Flt 1.08, Flt 1.15]" "[IntC 0, IntC 1, IntC 2]" ?vcu]
      p1 p2 p3 p4 by blast
  then have e: "\<exists>i x. i < length ?vcu \<and> ?vcu ! i = Some x \<and> x \<le> 11 / 10 \<and>
              (\<forall>j y. j < length ?vcu \<and> ?vcu ! j = Some y \<and> y \<le> 11 / 10 \<longrightarrow> y \<le> x) \<and>
              (\<forall>j y. j < i \<and> ?vcu ! j = Some y \<and> y \<le> 11 / 10 \<longrightarrow> y < x) \<and>
              line_max_vcu ieee_table
                = ebind (int_cell ([IntC 0, IntC 1, IntC 2] ! i)) (\<lambda>k. Inr (Some k))"
    using c by (simp only: if_True)
  show ?thesis
    using p1 p2 p4 e ieee_table_line by - (intro conjI; assumption)
qed

text \<open>
  C2 as stated fails. For a bank of 13.8 kV rated 15 kV and the per-unit sweep
  \<open>Vcu = 1, 1.08, 1.15\<close> at \<open>f = 0, 1, 2\<close>, the rated-voltage ratio is
  \<open>Vcu2 = 0.92, 0.9936, 1.058\<close>: it is maximal, and below 1.10, at \<open>f = 2\<close>, but the code
  flags \<open>f = 1\<close>.
\<close>

theorem critical_row_ignores_rated_ratio:
  "\<exists>df_real. postprocess ieee_table rated_nameplate = Inr (df_real, Some 1) \<and>
      map_of df_real ''Vcu2'' = Some [Flt 0.92, Flt 0.9936, Flt 1.058] \<and>
      spec_critical_row ieee_table df_real = Inr (Some 2)"
proof -
  obtain bases where b: "calcular_nominais_celula rated_nameplate = Inr bases"
    and b1: "map_of bases ''V_unit'' = Some (Some (13800 / sqrt 3 / 4))"
    and b2: "map_of bases ''V_rated'' = Some (Some 15000)"
    and b3: "map_of bases ''S'' = Some (Some 4)"
    using rated_bases by blast
  obtain kv where c: "converter_unidades ieee_table (map_of bases) =
           Inr [(''Vcu'', map formatar_valores [Flt 1, Flt 1.08, Flt 1.15]),
                (''Vcu_kV'', kv),
                (''Vcu2'', map formatar_valores [Flt 0.92, Flt 0.9936, Flt 1.058])]"
    using ieee_table_converted [OF b1 b2 b3] by blast
  let ?real = "[(''Vcu'', map formatar_valores [Flt 1, Flt 1.08, Flt 1.15]),
                (''Vcu_kV'', kv),
                (''Vcu2'', [Flt 0.92, Flt 0.9936, Flt 1.058])]"
  have c': "converter_unidades ieee_table (map_of bases) = Inr ?real"
    using c by (simp only: ieee_table_ratio)
  have p: "postprocess ieee_table rated_nameplate = Inr (?real, Some 1)"
    by (simp add: postprocess_def b c' ieee_table_line)
  have r: "map_of ?real ''Vcu2'' = Some [Flt 0.92, Flt 0.9936, Flt 1.058]"
    by simp
  have s: "spec_critical_row ieee_table ?real = Inr (Some 2)"
    unfolding spec_critical_row_def r
    by (simp add: key_column_def masked_def num_cell_def int_cell_def ieee_table_def)
  show ?thesis using p r s by blast
qed

end
